theory Spec2Isabelle
  imports Complex_Main "HOL-Library.AList"
begin

section \<open>Shader layers (types/shader.ts)\<close>

text \<open>
  A JavaScript \<^verbatim>\<open>number\<close> is modelled as a \<^typ>\<open>real\<close>: the code below only compares
  property values with the constants 0 and 1, which agrees with IEEE arithmetic on every
  finite value. The \<^verbatim>\<open>order\<close> field is always produced from an array index or an array
  length and is modelled as an \<^typ>\<open>int\<close>.

  The discriminated union \<^verbatim>\<open>ShaderLayer\<close> pairs a type tag with the property object of
  that type; the tag is the constructor of \<open>shader_props\<close>.

  A JavaScript object also has an order of its keys, the order in which they were
  inserted: the spread operator and \<^verbatim>\<open>JSON.stringify\<close> follow it, and two objects with the
  same values under the same keys can differ in it. The order of the keys of
  \<^verbatim>\<open>layer.properties\<close> is the field \<open>key_order\<close> of a layer; \<open>prop_entries\<close> lists the
  fields of a property object in the order in which the object literals of
  \<^verbatim>\<open>SHADER_DEFAULTS\<close> write them, and \<open>properties_object\<close> is the object as the run time
  sees it: its own keys with their values, in insertion order.
\<close>

datatype shader_type =
    Brightness | Contrast | Blur | Saturation | HueRotate | Invert | Exposure
  | ColorCorrection | BlendMode | FilmGrain | Duotone | Pixelate | Threshold | Dither
  | Vignette | ChromaticAberration | Lut | Halation | Bloom

datatype blend_mode_type =
  Multiply | Screen | Overlay | SoftLight | HardLight | ColorDodge | ColorBurn

type_synonym rgb = "real \<times> real \<times> real"

datatype js_value = JNumber real | JString string | JArray "js_value list"

datatype shader_props =
    BrightnessProps real                       \<comment> \<open>value\<close>
  | ContrastProps real                         \<comment> \<open>value\<close>
  | BlurProps real real                        \<comment> \<open>radius, quality\<close>
  | SaturationProps real                       \<comment> \<open>value\<close>
  | HueRotateProps real                        \<comment> \<open>degrees\<close>
  | InvertProps real                           \<comment> \<open>amount\<close>
  | ExposureProps real                         \<comment> \<open>value\<close>
  | ColorCorrectionProps real real real real   \<comment> \<open>brightness, contrast, exposure, saturation\<close>
  | BlendModeProps blend_mode_type rgb real    \<comment> \<open>mode, color, opacity\<close>
  | FilmGrainProps real real                   \<comment> \<open>intensity, size\<close>
  | DuotoneProps rgb rgb                       \<comment> \<open>shadowColor, highlightColor\<close>
  | PixelateProps real                         \<comment> \<open>size\<close>
  | ThresholdProps real                        \<comment> \<open>value\<close>
  | DitherProps real                           \<comment> \<open>scale\<close>
  | VignetteProps real real real               \<comment> \<open>size, roundness, smoothness\<close>
  | ChromaticAberrationProps real              \<comment> \<open>offset\<close>
  | LutProps string real                       \<comment> \<open>lutUrl, intensity\<close>
  | HalationProps real real real rgb           \<comment> \<open>threshold, intensity, spread, tint\<close>
  | BloomProps real real real real             \<comment> \<open>threshold, intensity, radius, exposure\<close>

fun props_type :: "shader_props \<Rightarrow> shader_type" where
  "props_type (BrightnessProps _) = Brightness"
| "props_type (ContrastProps _) = Contrast"
| "props_type (BlurProps _ _) = Blur"
| "props_type (SaturationProps _) = Saturation"
| "props_type (HueRotateProps _) = HueRotate"
| "props_type (InvertProps _) = Invert"
| "props_type (ExposureProps _) = Exposure"
| "props_type (ColorCorrectionProps _ _ _ _) = ColorCorrection"
| "props_type (BlendModeProps _ _ _) = BlendMode"
| "props_type (FilmGrainProps _ _) = FilmGrain"
| "props_type (DuotoneProps _ _) = Duotone"
| "props_type (PixelateProps _) = Pixelate"
| "props_type (ThresholdProps _) = Threshold"
| "props_type (DitherProps _) = Dither"
| "props_type (VignetteProps _ _ _) = Vignette"
| "props_type (ChromaticAberrationProps _) = ChromaticAberration"
| "props_type (LutProps _ _) = Lut"
| "props_type (HalationProps _ _ _ _) = Halation"
| "props_type (BloomProps _ _ _ _) = Bloom"

fun mode_name :: "blend_mode_type \<Rightarrow> string" where
  "mode_name Multiply = ''multiply''"
| "mode_name Screen = ''screen''"
| "mode_name Overlay = ''overlay''"
| "mode_name SoftLight = ''soft-light''"
| "mode_name HardLight = ''hard-light''"
| "mode_name ColorDodge = ''color-dodge''"
| "mode_name ColorBurn = ''color-burn''"

fun color_value :: "rgb \<Rightarrow> js_value" where
  "color_value (r, g, b) = JArray [JNumber r, JNumber g, JNumber b]"

fun prop_entries :: "shader_props \<Rightarrow> (string \<times> js_value) list" where
  "prop_entries (BrightnessProps v) = [(''value'', JNumber v)]"
| "prop_entries (ContrastProps v) = [(''value'', JNumber v)]"
| "prop_entries (BlurProps r q) = [(''radius'', JNumber r), (''quality'', JNumber q)]"
| "prop_entries (SaturationProps v) = [(''value'', JNumber v)]"
| "prop_entries (HueRotateProps d) = [(''degrees'', JNumber d)]"
| "prop_entries (InvertProps a) = [(''amount'', JNumber a)]"
| "prop_entries (ExposureProps v) = [(''value'', JNumber v)]"
| "prop_entries (ColorCorrectionProps b c e s) =
     [(''brightness'', JNumber b), (''contrast'', JNumber c), (''exposure'', JNumber e),
      (''saturation'', JNumber s)]"
| "prop_entries (BlendModeProps m c opacity) =
     [(''mode'', JString (mode_name m)), (''color'', color_value c),
      (''opacity'', JNumber opacity)]"
| "prop_entries (FilmGrainProps i s) = [(''intensity'', JNumber i), (''size'', JNumber s)]"
| "prop_entries (DuotoneProps sc hc) =
     [(''shadowColor'', color_value sc), (''highlightColor'', color_value hc)]"
| "prop_entries (PixelateProps s) = [(''size'', JNumber s)]"
| "prop_entries (ThresholdProps v) = [(''value'', JNumber v)]"
| "prop_entries (DitherProps s) = [(''scale'', JNumber s)]"
| "prop_entries (VignetteProps s r m) =
     [(''size'', JNumber s), (''roundness'', JNumber r), (''smoothness'', JNumber m)]"
| "prop_entries (ChromaticAberrationProps off) = [(''offset'', JNumber off)]"
| "prop_entries (LutProps u i) = [(''lutUrl'', JString u), (''intensity'', JNumber i)]"
| "prop_entries (HalationProps t i s c) =
     [(''threshold'', JNumber t), (''intensity'', JNumber i), (''spread'', JNumber s),
      (''tint'', color_value c)]"
| "prop_entries (BloomProps t i r e) =
     [(''threshold'', JNumber t), (''intensity'', JNumber i), (''radius'', JNumber r),
      (''exposure'', JNumber e)]"

record shader_layer =
  layer_id :: string
  enabled :: bool
  order :: int
  properties :: shader_props
  key_order :: "string list"

definition layer_type :: "shader_layer \<Rightarrow> shader_type" where
  "layer_type l = props_type (properties l)"

definition properties_object :: "shader_layer \<Rightarrow> (string \<times> js_value) list" where
  "properties_object l =
     List.map_filter (\<lambda>k. map_option (Pair k) (map_of (prop_entries (properties l)) k))
       (key_order l)"

text \<open>The table \<^verbatim>\<open>SHADER_DEFAULTS\<close>.\<close>

fun SHADER_DEFAULTS :: "shader_type \<Rightarrow> shader_props" where
  "SHADER_DEFAULTS Brightness = BrightnessProps 0"
| "SHADER_DEFAULTS Contrast = ContrastProps 0"
| "SHADER_DEFAULTS Blur = BlurProps 0 8"
| "SHADER_DEFAULTS Saturation = SaturationProps 1"
| "SHADER_DEFAULTS HueRotate = HueRotateProps 0"
| "SHADER_DEFAULTS Invert = InvertProps 0"
| "SHADER_DEFAULTS Exposure = ExposureProps 1"
| "SHADER_DEFAULTS ColorCorrection = ColorCorrectionProps 0 0 1 1"
| "SHADER_DEFAULTS BlendMode = BlendModeProps Multiply (1, 0.5, 0) 0.5"
| "SHADER_DEFAULTS FilmGrain = FilmGrainProps 0.3 1.5"
| "SHADER_DEFAULTS Duotone = DuotoneProps (0.1, 0.0, 0.2) (1.0, 0.9, 0.5)"
| "SHADER_DEFAULTS Pixelate = PixelateProps 8"
| "SHADER_DEFAULTS Threshold = ThresholdProps 0.5"
| "SHADER_DEFAULTS Dither = DitherProps 1"
| "SHADER_DEFAULTS Vignette = VignetteProps 0.25 0.5 0.5"
| "SHADER_DEFAULTS ChromaticAberration = ChromaticAberrationProps 0.02"
| "SHADER_DEFAULTS Lut = LutProps [] 1.0"
| "SHADER_DEFAULTS Halation = HalationProps 0.7 0.3 8 (1.0, 0.3, 0.1)"
| "SHADER_DEFAULTS Bloom = BloomProps 0.6 0.5 10 1.0"

text \<open>\<^verbatim>\<open>createShaderLayer(type, id, order)\<close>; its \<^verbatim>\<open>{ ...SHADER_DEFAULTS[type] }\<close> copies the
  keys of the default object in their order.\<close>

definition createShaderLayer :: "shader_type \<Rightarrow> string \<Rightarrow> int \<Rightarrow> shader_layer" where
  "createShaderLayer ty i ord =
     \<lparr>layer_id = i, enabled = True, order = ord, properties = SHADER_DEFAULTS ty,
      key_order = map fst (prop_entries (SHADER_DEFAULTS ty))\<rparr>"

section \<open>The predicate \<^verbatim>\<open>hasEffect\<close> (lib/webgl/compositor.ts)\<close>

fun props_have_effect :: "shader_props \<Rightarrow> bool" where
  "props_have_effect (BrightnessProps v) = (v \<noteq> 0)"
| "props_have_effect (ContrastProps v) = (v \<noteq> 0)"
| "props_have_effect (ExposureProps v) = (v \<noteq> 1)"
| "props_have_effect (SaturationProps v) = (v \<noteq> 1)"
| "props_have_effect (InvertProps a) = (a > 0)"
| "props_have_effect (ColorCorrectionProps b c e s) = (b \<noteq> 0 \<or> c \<noteq> 0 \<or> e \<noteq> 1 \<or> s \<noteq> 1)"
| "props_have_effect (BlurProps r q) = (r > 0)"
| "props_have_effect (HueRotateProps d) = (d \<noteq> 0)"
| "props_have_effect (BlendModeProps m c opacity) = (opacity > 0)"
| "props_have_effect _ = True"

definition hasEffect :: "shader_layer \<Rightarrow> bool" where
  "hasEffect l = (if \<not> enabled l then False else props_have_effect (properties l))"

text \<open>The types whose \<^verbatim>\<open>switch\<close> case compares against the declared default, and the
  types that fall into the \<^verbatim>\<open>default\<close> branch.\<close>

definition neutral_default_types :: "shader_type set" where
  "neutral_default_types =
     {Brightness, Contrast, Exposure, Saturation, Invert, ColorCorrection, Blur, HueRotate}"

definition always_active_types :: "shader_type set" where
  "always_active_types =
     {FilmGrain, Duotone, Pixelate, Threshold, Dither, Vignette, ChromaticAberration, Lut,
      Halation, Bloom}"

section \<open>Removing a layer (store/actions/shader-actions.ts)\<close>

record canvas_image =
  img_id :: string
  url :: string
  position :: "real \<times> real"
  img_size :: "real \<times> real"
  originalSize :: "real \<times> real"
  shaderLayers :: "shader_layer list"
  zIndex :: int
  locked :: bool
  visible :: bool

text \<open>\<^verbatim>\<open>xs.map((layer, index) => ({ ...layer, order: index }))\<close>.\<close>

definition resequence :: "shader_layer list \<Rightarrow> shader_layer list" where
  "resequence ls = map (\<lambda>(index, layer). layer\<lparr>order := int index\<rparr>) (enumerate 0 ls)"

definition removeShaderLayerAtom ::
  "canvas_image list \<Rightarrow> string \<times> string \<Rightarrow> canvas_image list" where
  "removeShaderLayerAtom images payload =
     (case payload of (imageId, layerId) \<Rightarrow>
        map (\<lambda>img.
               if img_id img \<noteq> imageId then img
               else img\<lparr>shaderLayers :=
                          resequence (filter (\<lambda>layer. layer_id layer \<noteq> layerId)
                                             (shaderLayers img))\<rparr>)
            images)"

text \<open>A layer with its \<open>order\<close> field blanked: what is left is everything a removal must
  not touch.\<close>

definition without_order :: "shader_layer \<Rightarrow> shader_layer" where
  "without_order l = l\<lparr>order := 0\<rparr>"

section \<open>The result cache (hooks/use-shader-renderer.ts)\<close>

text \<open>
  \<^verbatim>\<open>JSON.stringify\<close> is a built-in of the language, not code of this repository; it is a
  parameter \<open>stringify\<close> of the model, a function of the property object with its keys in
  insertion order. \<^verbatim>\<open>Array.prototype.join\<close> is \<open>join\<close>.
\<close>

fun join :: "string \<Rightarrow> string list \<Rightarrow> string" where
  "join sep [] = []"
| "join sep [x] = x"
| "join sep (x # y # ys) = x @ sep @ join sep (y # ys)"

definition getCacheKey ::
  "((string \<times> js_value) list \<Rightarrow> string) \<Rightarrow> string \<Rightarrow> shader_layer list \<Rightarrow> string" where
  "getCacheKey stringify imageUrl layers =
     (let layerHash =
            join ''|'' (map (\<lambda>l. layer_id l @ '':'' @ stringify (properties_object l))
                            (filter (\<lambda>l. enabled l) layers))
      in imageUrl @ ''::'' @ layerHash)"



text \<open>
  The cache is a JavaScript \<^verbatim>\<open>Map\<close>, which iterates in insertion order: an association
  list with distinct keys. \<^verbatim>\<open>Map.set\<close> replaces the value of a present key in place and
  appends an absent key (\<^const>\<open>AList.update\<close>); \<^verbatim>\<open>Map.delete\<close> is \<^const>\<open>AList.delete\<close>;
  \<^verbatim>\<open>Map.get\<close> is \<^const>\<open>map_of\<close>; \<^verbatim>\<open>Map.size\<close> is \<^const>\<open>length\<close>.
\<close>

type_synonym 'c cache = "(string \<times> 'c) list"

text \<open>
  The \<^verbatim>\<open>if (processed) { ... }\<close> block of \<^verbatim>\<open>getProcessedImage\<close>: limit the size, then
  store. \<^verbatim>\<open>keys().next().value\<close> is the first key (or \<^verbatim>\<open>undefined\<close> on an empty map), and
  \<^verbatim>\<open>if (firstKey)\<close> is false for \<^verbatim>\<open>undefined\<close> and for the empty string.
\<close>

definition store_processed :: "'c cache \<Rightarrow> string \<Rightarrow> 'c \<Rightarrow> 'c cache" where
  "store_processed c cacheKey processed =
     (let c1 = (if length c > 50
                then (case c of
                        [] \<Rightarrow> c
                      | (firstKey, _) # _ \<Rightarrow>
                          if firstKey \<noteq> [] then AList.delete firstKey c else c)
                else c)
      in AList.update cacheKey processed c1)"

text \<open>A processed canvas: only its dimensions and an opaque content are observed.\<close>

record 'p canvas =
  cv_width :: int
  cv_height :: int
  cv_content :: 'p

datatype ('i, 'p) rendered = Original 'i | Processed "'p canvas"

text \<open>
  \<^verbatim>\<open>getProcessedImage(image, layers, width, height)\<close>. The image is its \<^verbatim>\<open>src\<close> and an
  opaque value; \<open>processImage\<close> is the outcome of the WebGL processing
  (\<^verbatim>\<open>null\<close> is \<open>None\<close>). The result is the returned surface and the cache afterwards.
\<close>

definition getProcessedImage ::
  "((string \<times> js_value) list \<Rightarrow> string) \<Rightarrow>
   (string \<times> 'i \<Rightarrow> shader_layer list \<Rightarrow> int \<Rightarrow> int \<Rightarrow> 'p canvas option) \<Rightarrow>
   'p canvas cache \<Rightarrow> string \<times> 'i \<Rightarrow> shader_layer list \<Rightarrow> int \<Rightarrow> int \<Rightarrow>
   ('i, 'p) rendered \<times> 'p canvas cache" where
  "getProcessedImage stringify processImage c img layers width height =
     (let activeLayers = filter (\<lambda>l. enabled l) layers in
      if length activeLayers = 0 then (Original (snd img), c)
      else
        let cacheKey = getCacheKey stringify (fst img) layers in
        case map_of c cacheKey of
          Some cached \<Rightarrow>
            if cv_width cached = width \<and> cv_height cached = height
            then (Processed cached, c)
            else (case processImage img layers width height of
                    Some processed \<Rightarrow>
                      (Processed processed, store_processed c cacheKey processed)
                  | None \<Rightarrow> (Original (snd img), c))
        | None \<Rightarrow>
            (case processImage img layers width height of
               Some processed \<Rightarrow> (Processed processed, store_processed c cacheKey processed)
             | None \<Rightarrow> (Original (snd img), c)))"

section \<open>The WebGL context\<close>

text \<open>
  The rendering context is modelled as a state machine over object handles. What it
  answers is fixed by an environment: whether the \<open>k\<close>-th request that can fail
  (creating an object, or a framebuffer being complete) succeeds, whether a shader source
  compiles, whether a pair of sources links, and which uniforms are active in a program.
  Pixel contents and vertex-array state are not modelled; a draw call is recorded with the
  bindings it was issued under.
\<close>

type_synonym handle = nat

datatype shader_source =
    quadVertexShader | colorCorrectionFragmentShader | brightnessFragmentShader
  | contrastFragmentShader | exposureFragmentShader | saturationFragmentShader
  | invertFragmentShader | hueRotateFragmentShader | blendModeFragmentShader
  | passthroughFragmentShader

datatype uniform_value =
  Uniform1i int | Uniform1f real | Uniform2f real real | Uniform3f real real real

record gl_env =
  succeeds :: "nat \<Rightarrow> bool"
  compile_ok :: "shader_source \<Rightarrow> bool"
  link_ok :: "shader_source \<Rightarrow> shader_source \<Rightarrow> bool"
  uniform_active :: "handle \<Rightarrow> string \<Rightarrow> bool"

record draw_call =
  dc_program :: "handle option"
  dc_target :: "handle option"    \<comment> \<open>bound framebuffer; \<open>None\<close> is the canvas\<close>
  dc_texture :: "handle option"   \<comment> \<open>texture bound to unit 0\<close>
  dc_viewport :: "int \<times> int"
  dc_uniforms :: "string \<Rightarrow> uniform_value option"

record gl_state =
  requests :: nat                 \<comment> \<open>requests that can fail, issued so far\<close>
  next_handle :: handle
  live :: "handle set"            \<comment> \<open>objects created and not deleted\<close>
  compiled :: "shader_source list" \<comment> \<open>sources handed to the compiler, oldest first\<close>
  current_program :: "handle option"
  bound_framebuffer :: "handle option"
  bound_texture :: "handle option"
  viewport :: "int \<times> int"
  uniforms :: "handle \<Rightarrow> string \<Rightarrow> uniform_value option"
  draws :: "draw_call list"

text \<open>\<^verbatim>\<open>gl.createX()\<close>: a fresh object, or \<^verbatim>\<open>null\<close>.\<close>

definition gl_create :: "gl_env \<Rightarrow> gl_state \<Rightarrow> handle option \<times> gl_state" where
  "gl_create E gl =
     (if succeeds E (requests gl)
      then (Some (next_handle gl),
            gl\<lparr>requests := requests gl + 1, next_handle := next_handle gl + 1,
               live := insert (next_handle gl) (live gl)\<rparr>)
      else (None, gl\<lparr>requests := requests gl + 1\<rparr>))"

text \<open>\<^verbatim>\<open>gl.checkFramebufferStatus(...) === gl.FRAMEBUFFER_COMPLETE\<close>.\<close>

definition gl_framebuffer_complete :: "gl_env \<Rightarrow> gl_state \<Rightarrow> bool \<times> gl_state" where
  "gl_framebuffer_complete E gl = (succeeds E (requests gl), gl\<lparr>requests := requests gl + 1\<rparr>)"

text \<open>\<^verbatim>\<open>gl.deleteX(object)\<close>.\<close>

definition gl_delete :: "handle \<Rightarrow> gl_state \<Rightarrow> gl_state" where
  "gl_delete h gl = gl\<lparr>live := live gl - {h}\<rparr>"

text \<open>\<^verbatim>\<open>gl.drawArrays(gl.TRIANGLES, 0, 6)\<close>, recorded with the current bindings.\<close>

definition gl_drawArrays :: "gl_state \<Rightarrow> gl_state" where
  "gl_drawArrays gl =
     gl\<lparr>draws := draws gl @
          [\<lparr>dc_program = current_program gl, dc_target = bound_framebuffer gl,
            dc_texture = bound_texture gl, dc_viewport = viewport gl,
            dc_uniforms = (case current_program gl of
                             None \<Rightarrow> (\<lambda>_. None)
                           | Some p \<Rightarrow> uniforms gl p)\<rparr>]\<rparr>"

text \<open>\<^verbatim>\<open>getUniformLocation(gl, program, name)\<close>; a location is the uniform's name.\<close>

definition getUniformLocation :: "gl_env \<Rightarrow> handle \<Rightarrow> string \<Rightarrow> string option" where
  "getUniformLocation E program name =
     (if uniform_active E program name then Some name else None)"

text \<open>\<^verbatim>\<open>if (loc) gl.uniform...(loc, v)\<close>: sets the uniform of the program in use.\<close>

definition gl_uniform :: "string option \<Rightarrow> uniform_value \<Rightarrow> gl_state \<Rightarrow> gl_state" where
  "gl_uniform loc v gl =
     (case loc of
        None \<Rightarrow> gl
      | Some name \<Rightarrow>
          (case current_program gl of
             None \<Rightarrow> gl
           | Some p \<Rightarrow> gl\<lparr>uniforms := (uniforms gl)(p := (uniforms gl p)(name \<mapsto> v))\<rparr>))"

subsection \<open>Textures (lib/webgl/texture.ts)\<close>

definition createTextureFromImage :: "gl_env \<Rightarrow> gl_state \<Rightarrow> handle option \<times> gl_state" where
  "createTextureFromImage E gl =
     (case gl_create E gl of
        (None, gl1) \<Rightarrow> (None, gl1)
      | (Some texture, gl1) \<Rightarrow> (Some texture, gl1\<lparr>bound_texture := Some texture\<rparr>))"

definition createEmptyTexture ::
  "gl_env \<Rightarrow> int \<Rightarrow> int \<Rightarrow> gl_state \<Rightarrow> handle option \<times> gl_state" where
  "createEmptyTexture E w h gl =
     (case gl_create E gl of
        (None, gl1) \<Rightarrow> (None, gl1)
      | (Some texture, gl1) \<Rightarrow> (Some texture, gl1\<lparr>bound_texture := Some texture\<rparr>))"

definition bindTexture :: "handle option \<Rightarrow> gl_state \<Rightarrow> gl_state" where
  "bindTexture texture gl = gl\<lparr>bound_texture := texture\<rparr>"

text \<open>\<^verbatim>\<open>TextureCache.getTexture(url, image)\<close>.\<close>

definition getTexture ::
  "gl_env \<Rightarrow> string \<Rightarrow> (string \<rightharpoonup> handle) \<times> gl_state \<Rightarrow>
   handle option \<times> (string \<rightharpoonup> handle) \<times> gl_state" where
  "getTexture E src s =
     (case s of (textures, gl) \<Rightarrow>
        (case textures src of
           Some t \<Rightarrow> (Some t, textures, gl)
         | None \<Rightarrow>
             (case createTextureFromImage E gl of
                (Some texture, gl1) \<Rightarrow> (Some texture, textures(src \<mapsto> texture), gl1)
              | (None, gl1) \<Rightarrow> (None, textures, gl1))))"

subsection \<open>Framebuffers (lib/webgl/framebuffer.ts)\<close>

record framebuffer =
  fb_framebuffer :: handle
  fb_texture :: handle
  fb_width :: int
  fb_height :: int

definition createFramebuffer ::
  "gl_env \<Rightarrow> int \<Rightarrow> int \<Rightarrow> gl_state \<Rightarrow> framebuffer option \<times> gl_state" where
  "createFramebuffer E w h gl =
     (case gl_create E gl of
        (None, gl1) \<Rightarrow> (None, gl1)
      | (Some fb, gl1) \<Rightarrow>
          (case createEmptyTexture E w h gl1 of
             (None, gl2) \<Rightarrow> (None, gl_delete fb gl2)
           | (Some texture, gl2) \<Rightarrow>
               (case gl_framebuffer_complete E (gl2\<lparr>bound_framebuffer := Some fb\<rparr>) of
                  (isComplete, gl3) \<Rightarrow>
                    if \<not> isComplete then (None, gl_delete texture (gl_delete fb gl3))
                    else (Some \<lparr>fb_framebuffer = fb, fb_texture = texture,
                                fb_width = w, fb_height = h\<rparr>,
                          gl3\<lparr>bound_framebuffer := None\<rparr>))))"

definition deleteFramebuffer :: "framebuffer \<Rightarrow> gl_state \<Rightarrow> gl_state" where
  "deleteFramebuffer fb gl = gl_delete (fb_texture fb) (gl_delete (fb_framebuffer fb) gl)"

text \<open>The class \<^verbatim>\<open>PingPongBuffer\<close>. Indexing the two-element array outside \<open>{0, 1}\<close> gives
  \<^verbatim>\<open>undefined\<close>, which \<^verbatim>\<open>?.\<close> and \<^verbatim>\<open>??\<close> turn into \<^verbatim>\<open>null\<close>.\<close>

record ping_pong =
  framebuffers :: "framebuffer option \<times> framebuffer option"
  currentIndex :: nat
  pp_width :: int
  pp_height :: int

definition new_PingPongBuffer :: ping_pong where
  "new_PingPongBuffer =
     \<lparr>framebuffers = (None, None), currentIndex = 0, pp_width = 0, pp_height = 0\<rparr>"

definition slot :: "framebuffer option \<times> framebuffer option \<Rightarrow> nat \<Rightarrow> framebuffer option" where
  "slot fbs i = (if i = 0 then fst fbs else if i = 1 then snd fbs else None)"

definition pp_dispose :: "ping_pong \<times> gl_state \<Rightarrow> ping_pong \<times> gl_state" where
  "pp_dispose s =
     (case s of (pp, gl) \<Rightarrow>
        (let gl1 = (case fst (framebuffers pp) of None \<Rightarrow> gl | Some fb \<Rightarrow> deleteFramebuffer fb gl);
             gl2 = (case snd (framebuffers pp) of None \<Rightarrow> gl1 | Some fb \<Rightarrow> deleteFramebuffer fb gl1)
         in (pp\<lparr>framebuffers := (None, None)\<rparr>, gl2)))"

definition pp_resize ::
  "gl_env \<Rightarrow> int \<Rightarrow> int \<Rightarrow> ping_pong \<times> gl_state \<Rightarrow> bool \<times> ping_pong \<times> gl_state" where
  "pp_resize E w h s =
     (case s of (pp, gl) \<Rightarrow>
        if pp_width pp = w \<and> pp_height pp = h then (True, pp, gl)
        else
          (case pp_dispose (pp\<lparr>pp_width := w, pp_height := h\<rparr>, gl) of (pp1, gl1) \<Rightarrow>
             (case createFramebuffer E w h gl1 of (fb0, gl2) \<Rightarrow>
                (case createFramebuffer E w h gl2 of (fb1, gl3) \<Rightarrow>
                   (fb0 \<noteq> None \<and> fb1 \<noteq> None, pp1\<lparr>framebuffers := (fb0, fb1)\<rparr>, gl3)))))"

definition getReadTexture :: "ping_pong \<Rightarrow> handle option" where
  "getReadTexture pp = map_option fb_texture (slot (framebuffers pp) (currentIndex pp))"

definition getWriteFramebuffer :: "ping_pong \<Rightarrow> handle option" where
  "getWriteFramebuffer pp =
     (let writeIndex = (currentIndex pp + 1) mod 2
      in map_option fb_framebuffer (slot (framebuffers pp) writeIndex))"

definition getWriteTexture :: "ping_pong \<Rightarrow> handle option" where
  "getWriteTexture pp =
     (let writeIndex = (currentIndex pp + 1) mod 2
      in map_option fb_texture (slot (framebuffers pp) writeIndex))"

definition swap_buffers :: "ping_pong \<Rightarrow> ping_pong" where
  "swap_buffers pp = pp\<lparr>currentIndex := (currentIndex pp + 1) mod 2\<rparr>"

definition reset :: "ping_pong \<Rightarrow> ping_pong" where
  "reset pp = pp\<lparr>currentIndex := 0\<rparr>"

subsection \<open>Programs (lib/webgl/program.ts)\<close>

definition compileShader ::
  "gl_env \<Rightarrow> shader_source \<Rightarrow> gl_state \<Rightarrow> handle option \<times> gl_state" where
  "compileShader E source gl =
     (case gl_create E gl of
        (None, gl1) \<Rightarrow> (None, gl1)
      | (Some shader, gl1) \<Rightarrow>
          (let gl2 = gl1\<lparr>compiled := compiled gl1 @ [source]\<rparr>
           in if \<not> compile_ok E source then (None, gl_delete shader gl2)
              else (Some shader, gl2)))"

definition createProgram ::
  "gl_env \<Rightarrow> shader_source \<Rightarrow> shader_source \<Rightarrow> gl_state \<Rightarrow> handle option \<times> gl_state" where
  "createProgram E vertexSource fragmentSource gl =
     (case compileShader E vertexSource gl of (vertexShader, gl1) \<Rightarrow>
        (case compileShader E fragmentSource gl1 of (fragmentShader, gl2) \<Rightarrow>
           (case (vertexShader, fragmentShader) of
              (Some vs, Some fs) \<Rightarrow>
                (case gl_create E gl2 of
                   (None, gl3) \<Rightarrow> (None, gl3)
                 | (Some program, gl3) \<Rightarrow>
                     if \<not> link_ok E vertexSource fragmentSource
                     then (None, gl_delete program gl3)
                     else (Some program, gl_delete fs (gl_delete vs gl3)))
            | _ \<Rightarrow> (None, gl2))))"

text \<open>\<^verbatim>\<open>ShaderProgramManager.getProgram(key, vertexSource, fragmentSource)\<close>.\<close>

definition getProgram ::
  "gl_env \<Rightarrow> string \<Rightarrow> shader_source \<Rightarrow> shader_source \<Rightarrow>
   (string \<rightharpoonup> handle) \<times> gl_state \<Rightarrow> handle option \<times> (string \<rightharpoonup> handle) \<times> gl_state" where
  "getProgram E key vertexSource fragmentSource s =
     (case s of (programs, gl) \<Rightarrow>
        (case programs key of
           Some p \<Rightarrow> (Some p, programs, gl)
         | None \<Rightarrow>
             (case createProgram E vertexSource fragmentSource gl of
                (Some program, gl1) \<Rightarrow> (Some program, programs(key \<mapsto> program), gl1)
              | (None, gl1) \<Rightarrow> (None, programs, gl1))))"

section \<open>The compositor (lib/webgl/compositor.ts)\<close>

fun type_name :: "shader_type \<Rightarrow> string" where
  "type_name Brightness = ''brightness''"
| "type_name Contrast = ''contrast''"
| "type_name Blur = ''blur''"
| "type_name Saturation = ''saturation''"
| "type_name HueRotate = ''hue-rotate''"
| "type_name Invert = ''invert''"
| "type_name Exposure = ''exposure''"
| "type_name ColorCorrection = ''color-correction''"
| "type_name BlendMode = ''blend-mode''"
| "type_name FilmGrain = ''film-grain''"
| "type_name Duotone = ''duotone''"
| "type_name Pixelate = ''pixelate''"
| "type_name Threshold = ''threshold''"
| "type_name Dither = ''dither''"
| "type_name Vignette = ''vignette''"
| "type_name ChromaticAberration = ''chromatic-aberration''"
| "type_name Lut = ''lut''"
| "type_name Halation = ''halation''"
| "type_name Bloom = ''bloom''"

fun getFragmentShader :: "shader_type \<Rightarrow> shader_source" where
  "getFragmentShader Brightness = brightnessFragmentShader"
| "getFragmentShader Contrast = contrastFragmentShader"
| "getFragmentShader Exposure = exposureFragmentShader"
| "getFragmentShader Saturation = saturationFragmentShader"
| "getFragmentShader Invert = invertFragmentShader"
| "getFragmentShader HueRotate = hueRotateFragmentShader"
| "getFragmentShader BlendMode = blendModeFragmentShader"
| "getFragmentShader ColorCorrection = colorCorrectionFragmentShader"
| "getFragmentShader _ = passthroughFragmentShader"

fun BLEND_MODE_VALUES :: "blend_mode_type \<Rightarrow> int" where
  "BLEND_MODE_VALUES Multiply = 0"
| "BLEND_MODE_VALUES Screen = 1"
| "BLEND_MODE_VALUES Overlay = 2"
| "BLEND_MODE_VALUES SoftLight = 3"
| "BLEND_MODE_VALUES HardLight = 4"
| "BLEND_MODE_VALUES ColorDodge = 5"
| "BLEND_MODE_VALUES ColorBurn = 6"

fun setShaderUniforms :: "gl_env \<Rightarrow> handle \<Rightarrow> shader_props \<Rightarrow> gl_state \<Rightarrow> gl_state" where
  "setShaderUniforms E program (BrightnessProps v) gl =
     gl_uniform (getUniformLocation E program ''u_value'') (Uniform1f v) gl"
| "setShaderUniforms E program (ContrastProps v) gl =
     gl_uniform (getUniformLocation E program ''u_value'') (Uniform1f v) gl"
| "setShaderUniforms E program (ExposureProps v) gl =
     gl_uniform (getUniformLocation E program ''u_value'') (Uniform1f v) gl"
| "setShaderUniforms E program (SaturationProps v) gl =
     gl_uniform (getUniformLocation E program ''u_value'') (Uniform1f v) gl"
| "setShaderUniforms E program (InvertProps a) gl =
     gl_uniform (getUniformLocation E program ''u_amount'') (Uniform1f a) gl"
| "setShaderUniforms E program (HueRotateProps d) gl =
     gl_uniform (getUniformLocation E program ''u_degrees'') (Uniform1f d) gl"
| "setShaderUniforms E program (BlendModeProps m c opacity) gl =
     (let colorLoc = getUniformLocation E program ''u_blendColor'';
          opacityLoc = getUniformLocation E program ''u_opacity'';
          modeLoc = getUniformLocation E program ''u_mode'';
          gl1 = gl_uniform colorLoc (Uniform3f (fst c) (fst (snd c)) (snd (snd c))) gl;
          gl2 = gl_uniform opacityLoc (Uniform1f opacity) gl1
      in gl_uniform modeLoc (Uniform1i (BLEND_MODE_VALUES m)) gl2)"
| "setShaderUniforms E program (ColorCorrectionProps b c e s) gl =
     (let brightnessLoc = getUniformLocation E program ''u_brightness'';
          contrastLoc = getUniformLocation E program ''u_contrast'';
          exposureLoc = getUniformLocation E program ''u_exposure'';
          saturationLoc = getUniformLocation E program ''u_saturation'';
          gl1 = gl_uniform brightnessLoc (Uniform1f b) gl;
          gl2 = gl_uniform contrastLoc (Uniform1f c) gl1;
          gl3 = gl_uniform exposureLoc (Uniform1f e) gl2
      in gl_uniform saturationLoc (Uniform1f s) gl3)"
| "setShaderUniforms E program _ gl = gl"

record shader_compositor =
  gl :: gl_state
  programs :: "string \<rightharpoonup> handle"
  textures :: "string \<rightharpoonup> handle"
  pingPong :: ping_pong
  quad_buffer :: "handle option"
  quad_vao :: "handle option"
  width :: int
  height :: int

text \<open>The constructor: the quad renderer creates its buffer and its vertex array.\<close>

definition new_ShaderCompositor :: "gl_env \<Rightarrow> gl_state \<Rightarrow> shader_compositor" where
  "new_ShaderCompositor E g =
     (case gl_create E g of (buffer, g1) \<Rightarrow>
        (case gl_create E g1 of (vao, g2) \<Rightarrow>
           \<lparr>gl = g2, programs = Map.empty, textures = Map.empty,
            pingPong = new_PingPongBuffer, quad_buffer = buffer, quad_vao = vao,
            width = 0, height = 0\<rparr>))"

text \<open>\<^verbatim>\<open>QuadRenderer.draw()\<close>.\<close>

definition quad_draw :: "shader_compositor \<Rightarrow> gl_state \<Rightarrow> gl_state" where
  "quad_draw c g = (if quad_vao c = None then g else gl_drawArrays g)"

text \<open>\<^verbatim>\<open>ShaderCompositor.resize(width, height)\<close>.\<close>

definition resize :: "gl_env \<Rightarrow> int \<Rightarrow> int \<Rightarrow> shader_compositor \<Rightarrow> shader_compositor" where
  "resize E w h c =
     (if width c = w \<and> height c = h then c
      else (case pp_resize E w h (pingPong c, gl c) of
              (_, pp, g) \<Rightarrow> c\<lparr>gl := g, pingPong := pp, width := w, height := h\<rparr>))"

definition renderPassthrough :: "gl_env \<Rightarrow> shader_compositor \<Rightarrow> handle \<Rightarrow> shader_compositor" where
  "renderPassthrough E c texture =
     (case getProgram E ''passthrough'' quadVertexShader passthroughFragmentShader
             (programs c, gl c) of
        (None, progs, g1) \<Rightarrow> c\<lparr>gl := g1, programs := progs\<rparr>
      | (Some program, progs, g1) \<Rightarrow>
          (let g2 = g1\<lparr>current_program := Some program\<rparr>;
               g3 = g2\<lparr>bound_framebuffer := None, viewport := (width c, height c)\<rparr>;
               g4 = bindTexture (Some texture) g3;
               g5 = gl_uniform (getUniformLocation E program ''u_image'') (Uniform1i 0) g4;
               g6 = gl_uniform (getUniformLocation E program ''u_flipY'') (Uniform1i 1) g5;
               g7 = quad_draw c g6
           in c\<lparr>gl := g7, programs := progs\<rparr>))"

text \<open>
  One iteration of the pass loop of \<^verbatim>\<open>render\<close>, for the index \<open>i\<close>: the loop state
  is the compositor and the variable \<^verbatim>\<open>inputTexture\<close>. A pass whose program is missing is
  left by \<^verbatim>\<open>continue\<close>.
\<close>

definition render_pass ::
  "gl_env \<Rightarrow> shader_layer list \<Rightarrow> nat \<Rightarrow> shader_compositor \<times> handle option \<Rightarrow>
   shader_compositor \<times> handle option" where
  "render_pass E activeLayers i s =
     (case s of (c, inputTexture) \<Rightarrow>
        (let layer = activeLayers ! i;
             isLastPass = (int i = int (length activeLayers) - 1);
             fragmentShader = getFragmentShader (layer_type layer)
         in case getProgram E (type_name (layer_type layer)) quadVertexShader fragmentShader
                   (programs c, gl c) of
              (None, progs, g1) \<Rightarrow> (c\<lparr>gl := g1, programs := progs\<rparr>, inputTexture)
            | (Some program, progs, g1) \<Rightarrow>
                (let g2 = g1\<lparr>current_program := Some program\<rparr>;
                     g3 = (if isLastPass
                           then g2\<lparr>bound_framebuffer := None,
                                   viewport := (width c, height c)\<rparr>
                           else g2\<lparr>bound_framebuffer := getWriteFramebuffer (pingPong c),
                                   viewport := (width c, height c)\<rparr>);
                     g4 = bindTexture inputTexture g3;
                     g5 = gl_uniform (getUniformLocation E program ''u_image'') (Uniform1i 0) g4;
                     g6 = gl_uniform (getUniformLocation E program ''u_resolution'')
                            (Uniform2f (real_of_int (width c)) (real_of_int (height c))) g5;
                     g7 = setShaderUniforms E program (properties layer) g6;
                     g8 = gl_uniform (getUniformLocation E program ''u_flipY'')
                            (Uniform1i (if i = 0 then 1 else 0)) g7;
                     g9 = quad_draw c g8
                 in if \<not> isLastPass
                    then (let pp = swap_buffers (pingPong c)
                          in (c\<lparr>gl := g9, programs := progs, pingPong := pp\<rparr>,
                              getReadTexture pp))
                    else (c\<lparr>gl := g9, programs := progs\<rparr>, inputTexture))))"

text \<open>
  \<^verbatim>\<open>ShaderCompositor.render(image, layers)\<close>; the image is given by its \<^verbatim>\<open>src\<close>.
  \<^verbatim>\<open>Array.prototype.sort\<close> is stable, as \<^const>\<open>sort_key\<close> is.
\<close>

definition render :: "gl_env \<Rightarrow> shader_compositor \<Rightarrow> string \<Rightarrow> shader_layer list \<Rightarrow> shader_compositor" where
  "render E c src layers =
     (case getTexture E src (textures c, gl c) of
        (None, texs, g1) \<Rightarrow> c\<lparr>gl := g1, textures := texs\<rparr>
      | (Some imageTexture, texs, g1) \<Rightarrow>
          (let c1 = c\<lparr>gl := g1, textures := texs\<rparr>;
               activeLayers = sort_key order (filter hasEffect layers)
           in if length activeLayers = 0 then renderPassthrough E c1 imageTexture
              else
                (case pp_resize E (width c1) (height c1) (pingPong c1, gl c1) of
                   (_, pp, g2) \<Rightarrow>
                     (let c2 = c1\<lparr>gl := g2, pingPong := reset pp\<rparr>
                      in fst (fold (render_pass E activeLayers)
                                [0..<length activeLayers] (c2, Some imageTexture))))))"

section \<open>Concrete contexts and inputs\<close>

text \<open>A fresh context, an environment in which the first \<open>n\<close> requests succeed and every
  shader compiles, and an environment that rejects one shader source.\<close>

definition gl_init :: gl_state where
  "gl_init =
     \<lparr>requests = 0, next_handle = 1, live = {}, compiled = [], current_program = None,
      bound_framebuffer = None, bound_texture = None, viewport = (0, 0),
      uniforms = (\<lambda>_ _. None), draws = []\<rparr>"

definition env_until :: "nat \<Rightarrow> gl_env" where
  "env_until n =
     \<lparr>succeeds = (\<lambda>k. k < n), compile_ok = (\<lambda>_. True), link_ok = (\<lambda>_ _. True),
      uniform_active = (\<lambda>_ _. True)\<rparr>"

definition env_rejecting :: "shader_source \<Rightarrow> gl_env" where
  "env_rejecting bad =
     \<lparr>succeeds = (\<lambda>_. True), compile_ok = (\<lambda>s. s \<noteq> bad), link_ok = (\<lambda>_ _. True),
      uniform_active = (\<lambda>_ _. True)\<rparr>"

text \<open>A buffer pair of 100 by 100 and the context that holds it.\<close>

definition ping_pong_100 :: ping_pong where
  "ping_pong_100 =
     \<lparr>framebuffers =
        (Some \<lparr>fb_framebuffer = 1, fb_texture = 2, fb_width = 100, fb_height = 100\<rparr>,
         Some \<lparr>fb_framebuffer = 3, fb_texture = 4, fb_width = 100, fb_height = 100\<rparr>),
      currentIndex = 0, pp_width = 100, pp_height = 100\<rparr>"

definition gl_100 :: gl_state where
  "gl_100 = gl_init\<lparr>requests := 6, next_handle := 5, live := {1, 2, 3, 4},
                    bound_texture := Some 4\<rparr>"

text \<open>A pair left behind by a resize whose second framebuffer could not be created.\<close>

definition ping_pong_partial :: ping_pong where
  "ping_pong_partial =
     \<lparr>framebuffers =
        (Some \<lparr>fb_framebuffer = 5, fb_texture = 6, fb_width = 200, fb_height = 200\<rparr>, None),
      currentIndex = 0, pp_width = 200, pp_height = 200\<rparr>"

definition gl_partial :: gl_state where
  "gl_partial = gl_init\<lparr>requests := 10, next_handle := 7, live := {5, 6},
                        bound_texture := Some 6\<rparr>"

text \<open>A compositor of 100 by 100 right after construction and \<^verbatim>\<open>resize(100, 100)\<close>.\<close>

definition compositor_100 :: shader_compositor where
  "compositor_100 =
     \<lparr>gl = gl_init\<lparr>requests := 8, next_handle := 7, live := {1, 2, 3, 4, 5, 6},
                     bound_texture := Some 6\<rparr>,
      programs = Map.empty, textures = Map.empty,
      pingPong =
        \<lparr>framebuffers =
           (Some \<lparr>fb_framebuffer = 3, fb_texture = 4, fb_width = 100, fb_height = 100\<rparr>,
            Some \<lparr>fb_framebuffer = 5, fb_texture = 6, fb_width = 100, fb_height = 100\<rparr>),
         currentIndex = 0, pp_width = 100, pp_height = 100\<rparr>,
      quad_buffer = Some 1, quad_vao = Some 2, width = 100, height = 100\<rparr>"

text \<open>The context of that compositor after a brightness program was rejected, and after
  a later attempt succeeded.\<close>

definition gl_after_rejection :: gl_state where
  "gl_after_rejection =
     gl_init\<lparr>requests := 10, next_handle := 9, live := {1, 2, 3, 4, 5, 6, 7},
             bound_texture := Some 6,
             compiled := [quadVertexShader, brightnessFragmentShader]\<rparr>"

definition gl_after_retry :: gl_state where
  "gl_after_retry =
     gl_init\<lparr>requests := 13, next_handle := 12, live := {1, 2, 3, 4, 5, 6, 7, 11},
             bound_texture := Some 6,
             compiled := [quadVertexShader, brightnessFragmentShader,
                          quadVertexShader, brightnessFragmentShader]\<rparr>"

text \<open>A fresh context after one and after two rejected brightness programs.\<close>

definition gl_rejected_once :: gl_state where
  "gl_rejected_once =
     gl_init\<lparr>requests := 2, next_handle := 3, live := {1},
             compiled := [quadVertexShader, brightnessFragmentShader]\<rparr>"

definition gl_rejected_twice :: gl_state where
  "gl_rejected_twice =
     gl_init\<lparr>requests := 4, next_handle := 5, live := {1, 3},
             compiled := [quadVertexShader, brightnessFragmentShader,
                          quadVertexShader, brightnessFragmentShader]\<rparr>"

definition two_layers :: "shader_layer list" where
  "two_layers =
     [\<lparr>layer_id = ''a'', enabled = True, order = 0, properties = BrightnessProps 0.2,
       key_order = [''value'']\<rparr>,
      \<lparr>layer_id = ''b'', enabled = True, order = 1, properties = SHADER_DEFAULTS Vignette,
       key_order = [''size'', ''roundness'', ''smoothness'']\<rparr>]"

definition three_layer_image :: canvas_image where
  "three_layer_image =
     \<lparr>img_id = ''img-1'', url = ''https://example.com/test.jpg'', position = (100, 100),
      img_size = (200, 150), originalSize = (200, 150),
      shaderLayers = [createShaderLayer Brightness ''a'' 0,
                      createShaderLayer Contrast ''b'' 1,
                      createShaderLayer Blur ''c'' 2],
      zIndex = 0, locked = False, visible = True\<rparr>"

text \<open>Fifty-one images with pairwise different sources.\<close>

definition fifty_one_images :: "(string \<times> nat) list" where
  "fifty_one_images = map (\<lambda>n. (replicate (Suc n) CHR ''u'', n)) [0..<51]"











text \<open>A disabled pixelate layer followed by a new brightness layer; and a new blend-mode
  layer followed by a new pixelate layer.\<close>

definition inactive_layers :: "shader_layer list" where
  "inactive_layers =
     [(createShaderLayer Pixelate ''a'' 0)\<lparr>enabled := False\<rparr>,
      createShaderLayer Brightness ''b'' 1]"

definition default_layers :: "shader_layer list" where
  "default_layers = [createShaderLayer BlendMode ''a'' 0, createShaderLayer Pixelate ''b'' 1]"

text \<open>The framebuffers a pair holds.\<close>

definition held :: "ping_pong \<Rightarrow> framebuffer set" where
  "held pp = set_option (fst (framebuffers pp)) \<union> set_option (snd (framebuffers pp))"

text \<open>A context in which every request succeeds and every shader compiles and links.\<close>

definition env_working :: gl_env where
  "env_working =
     \<lparr>succeeds = (\<lambda>_. True), compile_ok = (\<lambda>_. True), link_ok = (\<lambda>_ _. True),
      uniform_active = (\<lambda>_ _. True)\<rparr>"

text \<open>Nothing the context is asked for fails.\<close>

definition working :: "gl_env \<Rightarrow> bool" where
  "working E = ((\<forall>k. succeeds E k) \<and> (\<forall>s. compile_ok E s) \<and> (\<forall>v f. link_ok E v f))"

text \<open>
  What is expected of the \<open>k\<close>-th draw call of a composite of \<open>n\<close> passes, issued by the
  pass with index \<open>i\<close>: the last pass draws to the canvas and every other pass to the
  framebuffer of the slot \<open>(k + 1) mod 2\<close>; the first draw call reads the source texture and
  every later one the texture of the slot \<open>k mod 2\<close>; the draw call has a program, and
  \<^verbatim>\<open>u_flipY\<close>, when the program has it, is 1 for the pass 0 and 0 for every other pass.
\<close>

definition pass_draw_ok ::
  "gl_env \<Rightarrow> nat \<Rightarrow> framebuffer option \<times> framebuffer option \<Rightarrow> handle option \<Rightarrow>
   nat \<Rightarrow> nat \<times> draw_call \<Rightarrow> bool" where
  "pass_draw_ok E n fbs source k e =
     (case e of (i, d) \<Rightarrow>
        dc_target d = (if i = n - 1 then None
                       else map_option fb_framebuffer (slot fbs ((k + 1) mod 2))) \<and>
        dc_texture d = (if k = 0 then source
                        else map_option fb_texture (slot fbs (k mod 2))) \<and>
        (\<exists>p. dc_program d = Some p \<and>
             (uniform_active E p ''u_flipY'' \<longrightarrow>
              dc_uniforms d ''u_flipY'' = Some (Uniform1i (if i = 0 then 1 else 0)))))"

text \<open>
  The invariant of the pass loop before the pass \<open>m\<close>. The trace pairs every draw call
  issued so far with the index of its pass.
\<close>

definition loop_inv ::
  "gl_env \<Rightarrow> shader_layer list \<Rightarrow> shader_compositor \<Rightarrow> handle option \<Rightarrow> nat \<Rightarrow>
   shader_compositor \<times> handle option \<Rightarrow> (nat \<times> draw_call) list \<Rightarrow> bool" where
  "loop_inv E ls c0 i0 m s tr =
     (draws (gl (fst s)) = draws (gl c0) @ map snd tr \<and>
      sorted_wrt (<) (map fst tr) \<and> set (map fst tr) \<subseteq> {0..<m} \<and>
      (m < length ls \<longrightarrow>
         currentIndex (pingPong (fst s)) = length tr mod 2 \<and>
         snd s = (if tr = [] then i0
                  else map_option fb_texture
                         (slot (framebuffers (pingPong c0)) (length tr mod 2)))) \<and>
      (\<forall>k < length tr.
         pass_draw_ok E (length ls) (framebuffers (pingPong c0)) i0 k (tr ! k)) \<and>
      (working E \<longrightarrow> map fst tr = [0..<m]))"

section \<open>Active layers\<close>

lemma hasEffect_defaults:
  "properties l = SHADER_DEFAULTS ty \<Longrightarrow>
   hasEffect l = (enabled l \<and> ty \<notin> neutral_default_types)"
  by (cases ty) (simp_all add: hasEffect_def neutral_default_types_def)

lemma hasEffect_always:
  "layer_type l \<in> always_active_types \<Longrightarrow> hasEffect l = enabled l"
  by (cases "properties l")
     (simp_all add: hasEffect_def always_active_types_def layer_type_def)

text \<open>
  Claim C3, as the code has it. A layer whose properties are the declared defaults of its
  type is active exactly when it is enabled and its type is not one of brightness,
  contrast, exposure, saturation, invert, color-correction, blur and hue-rotate; so an
  enabled blend-mode layer at its defaults (opacity 0.5) is active. A layer of a type
  without a case of its own (film-grain, duotone, pixelate, threshold, dither, vignette,
  chromatic-aberration, lut, halation, bloom) is active whenever it is enabled.
\<close>

theorem hasEffect_at_defaults:
  "(properties l = SHADER_DEFAULTS ty \<longrightarrow>
      hasEffect l = (enabled l \<and> ty \<notin> neutral_default_types)) \<and>
   (layer_type l \<in> always_active_types \<longrightarrow> hasEffect l = enabled l)"
  using hasEffect_defaults hasEffect_always by blast

text \<open>The theorem at a default brightness layer and at a default pixelate layer.\<close>

theorem hasEffect_at_defaults_witness:
  "properties (createShaderLayer Brightness ''a'' 0) = SHADER_DEFAULTS Brightness \<and>
   \<not> hasEffect (createShaderLayer Brightness ''a'' 0) \<and>
   properties (createShaderLayer Pixelate ''b'' 1) = SHADER_DEFAULTS Pixelate \<and>
   layer_type (createShaderLayer Pixelate ''b'' 1) \<in> always_active_types \<and>
   hasEffect (createShaderLayer Pixelate ''b'' 1)"
  using hasEffect_at_defaults[of "createShaderLayer Brightness ''a'' 0" Brightness]
        hasEffect_at_defaults[of "createShaderLayer Pixelate ''b'' 1" Pixelate]
  by (simp add: createShaderLayer_def neutral_default_types_def always_active_types_def
        layer_type_def)

text \<open>Claim C3 as written fails: a new blend-mode layer has exactly the declared defaults
  and is not filtered out.\<close>

theorem blend_mode_default_is_active:
  "properties (createShaderLayer BlendMode ''layer-1'' 0) = SHADER_DEFAULTS BlendMode \<and>
   hasEffect (createShaderLayer BlendMode ''layer-1'' 0)"
  by (simp add: createShaderLayer_def hasEffect_def)

section \<open>Removing a layer\<close>

lemma resequence_length: "length (resequence ls) = length ls"
  by (simp add: resequence_def)

lemma resequence_nth: "k < length ls \<Longrightarrow> resequence ls ! k = (ls ! k)\<lparr>order := int k\<rparr>"
  by (simp add: resequence_def nth_enumerate_eq)

lemma resequence_order: "map order (resequence ls) = map int [0..<length ls]"
  by (rule nth_equalityI) (simp_all add: resequence_length resequence_nth)

lemma resequence_without_order: "map without_order (resequence ls) = map without_order ls"
  by (rule nth_equalityI)
     (simp_all add: resequence_length resequence_nth without_order_def)

lemma length_filter_other_ids:
  "length (filter (\<lambda>l. layer_id l \<noteq> k) ls) =
   length ls - length (filter (\<lambda>l. layer_id l = k) ls)"
  using sum_length_filter_compl[of "\<lambda>l. layer_id l = k" ls] by simp

text \<open>
  Claim C8. When the image \<open>imageId\<close> has exactly one layer with the id \<open>layerId\<close>,
  removing it leaves one layer fewer, the \<open>order\<close> fields of the remaining layers are
  \<open>0, 1, \<dots>, n - 2\<close> from front to back, and apart from \<open>order\<close> the remaining layers
  are the old ones in their old sequence.
\<close>

theorem remove_layer_resequences:
  assumes "i < length images"
    and "img_id (images ! i) = imageId"
    and "length (filter (\<lambda>l. layer_id l = layerId) (shaderLayers (images ! i))) = 1"
  shows "let ls = shaderLayers (images ! i);
             ls' = shaderLayers (removeShaderLayerAtom images (imageId, layerId) ! i)
         in length ls' = length ls - 1 \<and>
            map order ls' = map int [0..<length ls - 1] \<and>
            map without_order ls' =
              map without_order (filter (\<lambda>l. layer_id l \<noteq> layerId) ls)"
  using assms
  by (simp add: removeShaderLayerAtom_def Let_def resequence_length resequence_order
        resequence_without_order length_filter_other_ids)

text \<open>Removing the middle one of three layers.\<close>

theorem remove_layer_resequences_witness:
  "0 < length [three_layer_image] \<and>
   img_id ([three_layer_image] ! 0) = ''img-1'' \<and>
   length (filter (\<lambda>l. layer_id l = ''b'') (shaderLayers ([three_layer_image] ! 0))) = 1 \<and>
   shaderLayers (removeShaderLayerAtom [three_layer_image] (''img-1'', ''b'') ! 0) =
     [createShaderLayer Brightness ''a'' 0, createShaderLayer Blur ''c'' 1] \<and>
   map order (shaderLayers (removeShaderLayerAtom [three_layer_image] (''img-1'', ''b'') ! 0)) =
     map int [0..<length (shaderLayers ([three_layer_image] ! 0)) - 1]"
proof -
  have h1: "0 < length [three_layer_image]" by simp
  have h2: "img_id ([three_layer_image] ! 0) = ''img-1''"
    by (simp add: three_layer_image_def)
  have h3: "length (filter (\<lambda>l. layer_id l = ''b'') (shaderLayers ([three_layer_image] ! 0))) = 1"
    by (simp add: three_layer_image_def createShaderLayer_def)
  have run: "shaderLayers (removeShaderLayerAtom [three_layer_image] (''img-1'', ''b'') ! 0) =
     [createShaderLayer Brightness ''a'' 0, createShaderLayer Blur ''c'' 1]"
    by (simp add: removeShaderLayerAtom_def three_layer_image_def createShaderLayer_def
          resequence_def)
  from remove_layer_resequences[OF h1 h2 h3] h1 h2 h3 run show ?thesis
    by (simp add: Let_def)
qed

section \<open>The fingerprint\<close>

















section \<open>The bound of the result cache\<close>

lemma update_absent: "k \<notin> fst ` set c \<Longrightarrow> AList.update k v c = c @ [(k, v)]"
  by (induction c) auto

lemma store_processed_below_bound:
  "length c \<le> 50 \<Longrightarrow> k \<notin> fst ` set c \<Longrightarrow> store_processed c k v = c @ [(k, v)]"
  by (simp add: store_processed_def update_absent)

lemma getProcessedImage_miss:
  assumes "filter enabled layers \<noteq> []"
    and "map_of c (getCacheKey s (fst img) layers) = None"
    and "P img layers w h = Some p"
  shows "getProcessedImage s P c img layers w h =
         (Processed p, store_processed c (getCacheKey s (fst img) layers) p)"
  using assms by (simp add: getProcessedImage_def Let_def)

text \<open>Up to fifty-one misses in a row are all stored, in the order of the calls.\<close>

lemma fold_getProcessedImage_below_bound:
  assumes "filter enabled layers \<noteq> []"
    and "\<And>img. P img layers w h = Some (f img)"
  shows "distinct (map fst c @ map (\<lambda>img. getCacheKey s (fst img) layers) imgs) \<Longrightarrow>
         length c + length imgs \<le> 51 \<Longrightarrow>
         fold (\<lambda>img c. snd (getProcessedImage s P c img layers w h)) imgs c =
         c @ map (\<lambda>img. (getCacheKey s (fst img) layers, f img)) imgs"
proof (induction imgs arbitrary: c)
  case Nil
  then show ?case by simp
next
  case (Cons img imgs)
  let ?k = "getCacheKey s (fst img) layers"
  from Cons.prems have absent: "?k \<notin> fst ` set c" by auto
  then have miss: "map_of c ?k = None" by (simp add: map_of_eq_None_iff)
  from Cons.prems have len: "length c \<le> 50" by simp
  have step: "snd (getProcessedImage s P c img layers w h) = c @ [(?k, f img)]"
    using getProcessedImage_miss[where P = P and p = "f img" and c = c and img = img,
        OF assms(1) miss assms(2)]
    by (simp add: store_processed_below_bound[OF len absent])
  have "fold (\<lambda>img c. snd (getProcessedImage s P c img layers w h)) imgs (c @ [(?k, f img)]) =
        (c @ [(?k, f img)]) @ map (\<lambda>img. (getCacheKey s (fst img) layers, f img)) imgs"
    using Cons.prems by (intro Cons.IH) auto
  with step show ?case by simp
qed

lemma getCacheKey_length:
  "length (getCacheKey s u ls) = length u + length (getCacheKey s [] ls)"
  by (simp add: getCacheKey_def Let_def)

lemma getCacheKey_same_length:
  assumes "getCacheKey s u ls = getCacheKey s u' ls"
  shows "length u = length u'"
proof -
  have "length (getCacheKey s u ls) = length (getCacheKey s u' ls)"
    using assms by simp
  then show ?thesis
    by (simp add: getCacheKey_length[of s u] getCacheKey_length[of s u'])
qed

lemma distinct_keys_fifty_one:
  "distinct (map (\<lambda>img. getCacheKey s (fst img) ls) fifty_one_images)"
proof -
  have "inj_on (\<lambda>n. getCacheKey s (replicate (Suc n) CHR ''u'') ls) {0..<51}"
  proof (rule inj_onI)
    fix x y
    assume "getCacheKey s (replicate (Suc x) CHR ''u'') ls =
            getCacheKey s (replicate (Suc y) CHR ''u'') ls"
    from getCacheKey_same_length[OF this] show "x = y" by simp
  qed
  then show ?thesis
    unfolding fifty_one_images_def by (simp add: distinct_map o_def del: replicate_Suc)
qed

text \<open>
  Claim C1, at fifty-one calls of \<^verbatim>\<open>getProcessedImage\<close> on an empty cache, for fifty-one
  images with different sources, one enabled pixelate layer and a processing step that
  succeeds: the size is tested before the new entry is stored, so all fifty-one entries
  are kept, and the entry of the first image is still found.
\<close>

theorem cache_holds_fifty_one_entries:
  "let layers = [createShaderLayer Pixelate ''layer-1'' 0];
       P = (\<lambda>img ls w h. Some \<lparr>cv_width = w, cv_height = h, cv_content = snd img\<rparr>);
       c = fold (\<lambda>img c. snd (getProcessedImage stringify P c img layers 100 100))
                fifty_one_images []
   in length c = 51 \<and>
      map_of c (getCacheKey stringify ''u'' layers) =
        Some \<lparr>cv_width = 100, cv_height = 100, cv_content = 0\<rparr>"
proof -
  let ?layers = "[createShaderLayer Pixelate ''layer-1'' 0]"
  let ?P = "(\<lambda>img ls w h. Some \<lparr>cv_width = w, cv_height = h, cv_content = snd img\<rparr>)
              :: string \<times> nat \<Rightarrow> shader_layer list \<Rightarrow> int \<Rightarrow> int \<Rightarrow> nat canvas option"
  let ?g = "\<lambda>img :: string \<times> nat.
              (getCacheKey stringify (fst img) ?layers,
               \<lparr>cv_width = 100::int, cv_height = 100::int, cv_content = snd img\<rparr>)"
  have en: "filter enabled ?layers \<noteq> []" by (simp add: createShaderLayer_def)
  have len: "length ([] :: (string \<times> nat canvas) list) + length fifty_one_images \<le> 51"
    by (simp add: fifty_one_images_def)
  have dist: "distinct (map fst ([] :: (string \<times> nat canvas) list) @
                map (\<lambda>img. getCacheKey stringify (fst img) ?layers) fifty_one_images)"
    using distinct_keys_fifty_one by simp
  have P: "\<And>img. ?P img ?layers 100 100 =
             Some \<lparr>cv_width = 100, cv_height = 100, cv_content = snd img\<rparr>"
    by simp
  have run: "fold (\<lambda>img c. snd (getProcessedImage stringify ?P c img ?layers 100 100))
               fifty_one_images [] = map ?g fifty_one_images"
    using fold_getProcessedImage_below_bound
            [where f = "\<lambda>img. \<lparr>cv_width = 100, cv_height = 100, cv_content = snd img\<rparr>"
               and P = ?P and layers = ?layers and w = 100 and h = 100 and c = "[]"
               and s = stringify and imgs = fifty_one_images, OF en P dist len]
    by simp
  have first: "fifty_one_images = (''u'', 0) # tl fifty_one_images"
    by (simp add: fifty_one_images_def upt_conv_Cons)
  have l51: "length (map ?g fifty_one_images) = 51" by (simp add: fifty_one_images_def)
  have "map ?g fifty_one_images = ?g (''u'', 0) # map ?g (tl fifty_one_images)"
    by (subst first) simp
  then have found: "map_of (map ?g fifty_one_images) (getCacheKey stringify ''u'' ?layers) =
                    Some \<lparr>cv_width = 100, cv_height = 100, cv_content = 0\<rparr>"
    by simp
  show ?thesis unfolding Let_def run using l51 found by blast
qed

section \<open>Resizing the buffer pair\<close>

lemma gl_create_live:
  "x < next_handle g \<Longrightarrow> x \<in> live (snd (gl_create E g)) \<longleftrightarrow> x \<in> live g"
  by (auto simp: gl_create_def)

lemma createFramebuffer_draws: "draws (snd (createFramebuffer E w h g)) = draws g"
  by (simp add: createFramebuffer_def createEmptyTexture_def gl_create_def
        gl_framebuffer_complete_def gl_delete_def)

lemma createFramebuffer_next:
  "next_handle g \<le> next_handle (snd (createFramebuffer E w h g))"
  by (simp add: createFramebuffer_def createEmptyTexture_def gl_create_def
        gl_framebuffer_complete_def gl_delete_def)

lemma createFramebuffer_live:
  "x < next_handle g \<Longrightarrow> x \<in> live (snd (createFramebuffer E w h g)) \<longleftrightarrow> x \<in> live g"
  by (auto simp: createFramebuffer_def createEmptyTexture_def gl_create_def
        gl_framebuffer_complete_def gl_delete_def)

lemma createFramebuffer_Some:
  "createFramebuffer E w h g = (Some fb, g1) \<Longrightarrow>
     fb_width fb = w \<and> fb_height fb = h \<and> fb_framebuffer fb = next_handle g \<and>
     fb_texture fb = next_handle g + 1"
  by (auto simp: createFramebuffer_def createEmptyTexture_def gl_create_def
        gl_framebuffer_complete_def gl_delete_def split: if_splits)

lemma pp_dispose_frame:
  "next_handle (snd (pp_dispose (pp, g))) = next_handle g"
  "fst (pp_dispose (pp, g)) = pp\<lparr>framebuffers := (None, None)\<rparr>"
  by (simp_all add: pp_dispose_def Let_def deleteFramebuffer_def gl_delete_def
        split: option.splits)

lemma pp_dispose_live:
  "live (snd (pp_dispose (pp, g))) =
     live g - (\<Union>fb \<in> held pp. {fb_framebuffer fb, fb_texture fb})"
  by (auto simp: pp_dispose_def Let_def deleteFramebuffer_def gl_delete_def held_def
        split: option.splits)

lemma pp_resize_changed:
  assumes "\<not> (pp_width pp = w \<and> pp_height pp = h)"
  shows "pp_resize E w h (pp, g) =
     (let g1 = snd (pp_dispose (pp\<lparr>pp_width := w, pp_height := h\<rparr>, g));
          r0 = createFramebuffer E w h g1;
          r1 = createFramebuffer E w h (snd r0)
      in (fst r0 \<noteq> None \<and> fst r1 \<noteq> None,
          pp\<lparr>pp_width := w, pp_height := h, framebuffers := (fst r0, fst r1)\<rparr>, snd r1))"
  using assms
  by (auto simp add: pp_resize_def Let_def case_prod_beta pp_dispose_frame)

lemma pp_resize_False_dims:
  "pp_resize E w h (pp, g) = (False, pp1, g1) \<Longrightarrow> \<not> (pp_width pp = w \<and> pp_height pp = h)"
  by (auto simp: pp_resize_def)

text \<open>What a failed resize leaves behind.\<close>

lemma pp_resize_failed:
  assumes "pp_resize E w h (pp, g) = (False, pp1, g1)"
  shows "pp_width pp1 = w \<and> pp_height pp1 = h"
    and "fst (framebuffers pp1) = None \<or> snd (framebuffers pp1) = None"
    and "\<forall>fb \<in> held pp1. fb_width fb = w \<and> fb_height fb = h \<and>
                          next_handle g \<le> fb_framebuffer fb \<and> next_handle g \<le> fb_texture fb"
    and "\<forall>fb \<in> held pp. fb_framebuffer fb < next_handle g \<and> fb_texture fb < next_handle g \<longrightarrow>
                         fb_framebuffer fb \<notin> live g1 \<and> fb_texture fb \<notin> live g1"
proof -
  let ?g1 = "snd (pp_dispose (pp\<lparr>pp_width := w, pp_height := h\<rparr>, g))"
  let ?r0 = "createFramebuffer E w h ?g1"
  let ?r1 = "createFramebuffer E w h (snd ?r0)"
  from pp_resize_False_dims[OF assms]
  have dims: "\<not> (pp_width pp = w \<and> pp_height pp = h)" .
  from assms pp_resize_changed[OF dims, of E g]
  have ok: "\<not> (fst ?r0 \<noteq> None \<and> fst ?r1 \<noteq> None)"
    and pp1: "pp1 = pp\<lparr>pp_width := w, pp_height := h, framebuffers := (fst ?r0, fst ?r1)\<rparr>"
    and g1: "g1 = snd ?r1"
    by (simp_all add: Let_def)
  have n1: "next_handle ?g1 = next_handle g" by (simp add: pp_dispose_frame)
  have n2: "next_handle g \<le> next_handle (snd ?r0)"
    using createFramebuffer_next[of ?g1 E w h] n1 by simp
  have new0: "fb_width fb = w \<and> fb_height fb = h \<and>
              next_handle g \<le> fb_framebuffer fb \<and> next_handle g \<le> fb_texture fb"
    if "fst ?r0 = Some fb" for fb
    using createFramebuffer_Some[of E w h ?g1 fb "snd ?r0"] that n1 by (simp add: prod_eq_iff)
  have new1: "fb_width fb = w \<and> fb_height fb = h \<and>
              next_handle g \<le> fb_framebuffer fb \<and> next_handle g \<le> fb_texture fb"
    if "fst ?r1 = Some fb" for fb
    using createFramebuffer_Some[of E w h "snd ?r0" fb "snd ?r1"] that n2
    by (simp add: prod_eq_iff)
  have old: "x \<notin> live g1" if "x < next_handle g" and "x \<notin> live ?g1" for x
  proof -
    have "x \<notin> live (snd ?r0)"
      using createFramebuffer_live[of x ?g1 E w h] that n1 by simp
    then show ?thesis
      using createFramebuffer_live[of x "snd ?r0" E w h] that n2 g1 by simp
  qed
  have gone: "fb_framebuffer fb \<notin> live ?g1 \<and> fb_texture fb \<notin> live ?g1"
    if "fb \<in> held pp" for fb
  proof -
    have "held (pp\<lparr>pp_width := w, pp_height := h\<rparr>) = held pp" by (simp add: held_def)
    with that show ?thesis by (auto simp: pp_dispose_live)
  qed
  show "pp_width pp1 = w \<and> pp_height pp1 = h" by (simp add: pp1)
  show "fst (framebuffers pp1) = None \<or> snd (framebuffers pp1) = None"
    using ok by (auto simp: pp1)
  show "\<forall>fb \<in> held pp1. fb_width fb = w \<and> fb_height fb = h \<and>
                          next_handle g \<le> fb_framebuffer fb \<and> next_handle g \<le> fb_texture fb"
    using new0 new1 by (auto simp: pp1 held_def)
  show "\<forall>fb \<in> held pp. fb_framebuffer fb < next_handle g \<and> fb_texture fb < next_handle g \<longrightarrow>
                         fb_framebuffer fb \<notin> live g1 \<and> fb_texture fb \<notin> live g1"
    using old gone by blast
qed

lemmas run_pp_resize =
  pp_resize_def pp_dispose_def createFramebuffer_def createEmptyTexture_def gl_create_def
  gl_framebuffer_complete_def gl_delete_def deleteFramebuffer_def new_PingPongBuffer_def
  gl_init_def env_until_def Let_def insert_commute insert_Diff_if eval_nat_numeral

text \<open>Three runs: a first resize that succeeds, a later resize whose second framebuffer
  fails, and a first resize whose second framebuffer fails.\<close>

lemma resize_to_100_run:
  "pp_resize (env_until 9) 100 100 (new_PingPongBuffer, gl_init) =
     (True, ping_pong_100, gl_100)"
  by (simp add: run_pp_resize ping_pong_100_def gl_100_def)

lemma resize_to_200_run:
  "pp_resize (env_until 9) 200 200 (ping_pong_100, gl_100) =
     (False, ping_pong_partial, gl_partial)"
  by (simp add: run_pp_resize ping_pong_100_def gl_100_def ping_pong_partial_def
        gl_partial_def)

lemma first_resize_partial_run:
  "pp_resize (env_until 3) 200 200 (new_PingPongBuffer, gl_init) =
    (False,
     \<lparr>framebuffers =
        (Some \<lparr>fb_framebuffer = 1, fb_texture = 2, fb_width = 200, fb_height = 200\<rparr>, None),
      currentIndex = 0, pp_width = 200, pp_height = 200\<rparr>,
     gl_init\<lparr>requests := 4, next_handle := 3, live := {1, 2}, bound_texture := Some 2\<rparr>)"
  by (simp add: run_pp_resize)

text \<open>
  Claim C6, as the code has it. When \<^verbatim>\<open>resize\<close> to new dimensions returns \<^verbatim>\<open>false\<close>, the old
  pair is gone: the new width and height are recorded, at least one slot is \<^verbatim>\<open>null\<close>,
  every framebuffer the pair still holds was created by this call at the new size, and
  the framebuffers and textures of the old pair are deleted.
\<close>

theorem resize_failure_discards_old_pair:
  assumes "pp_resize E w h (pp, g) = (False, pp1, g1)"
  shows "pp_width pp1 = w \<and> pp_height pp1 = h \<and>
         (fst (framebuffers pp1) = None \<or> snd (framebuffers pp1) = None) \<and>
         (\<forall>fb \<in> held pp1. fb_width fb = w \<and> fb_height fb = h \<and>
                           next_handle g \<le> fb_framebuffer fb \<and> next_handle g \<le> fb_texture fb) \<and>
         (\<forall>fb \<in> held pp. fb_framebuffer fb < next_handle g \<and> fb_texture fb < next_handle g \<longrightarrow>
                          fb_framebuffer fb \<notin> live g1 \<and> fb_texture fb \<notin> live g1)"
  using pp_resize_failed[OF assms] by blast

text \<open>The theorem at the resize from 100 by 100 to 200 by 200 whose tenth request fails.\<close>

theorem resize_failure_discards_old_pair_witness:
  "pp_resize (env_until 9) 200 200 (ping_pong_100, gl_100) =
     (False, ping_pong_partial, gl_partial) \<and>
   pp_width ping_pong_partial = 200 \<and> pp_height ping_pong_partial = 200 \<and>
   snd (framebuffers ping_pong_partial) = None \<and>
   held ping_pong_partial =
     {\<lparr>fb_framebuffer = 5, fb_texture = 6, fb_width = 200, fb_height = 200\<rparr>} \<and>
   next_handle gl_100 = 5 \<and>
   live gl_partial = {5, 6}"
  using resize_failure_discards_old_pair[OF resize_to_200_run] resize_to_200_run
  by (simp add: ping_pong_partial_def gl_partial_def gl_100_def gl_init_def held_def)

text \<open>Claim C6 as written fails at the same resize: it reports failure, the first slot
  holds a new framebuffer, the second slot is empty, and the old pair is not kept.\<close>

theorem resize_failure_partial_mutation:
  "fst (pp_resize (env_until 9) 200 200 (ping_pong_100, gl_100)) = False \<and>
   framebuffers (fst (snd (pp_resize (env_until 9) 200 200 (ping_pong_100, gl_100)))) =
     (Some \<lparr>fb_framebuffer = 5, fb_texture = 6, fb_width = 200, fb_height = 200\<rparr>, None) \<and>
   framebuffers (fst (snd (pp_resize (env_until 9) 200 200 (ping_pong_100, gl_100)))) \<noteq>
     framebuffers ping_pong_100"
  unfolding resize_to_200_run by (simp add: ping_pong_partial_def ping_pong_100_def)

text \<open>
  Claim C10, as the code has it. After a \<^verbatim>\<open>resize\<close> that returned \<^verbatim>\<open>false\<close>, a further
  \<^verbatim>\<open>resize\<close> to the same dimensions returns \<^verbatim>\<open>true\<close> and changes neither the pair nor the
  context, whatever the context would answer; at least one of \<^verbatim>\<open>getReadTexture\<close> and
  \<^verbatim>\<open>getWriteFramebuffer\<close> returns \<^verbatim>\<open>null\<close>, and both do when both slots are empty.
\<close>

theorem resize_after_failure_is_noop:
  assumes "pp_resize E w h (pp, g) = (False, pp1, g1)"
  shows "pp_resize E' w h (pp1, g1) = (True, pp1, g1) \<and>
         (getReadTexture pp1 = None \<or> getWriteFramebuffer pp1 = None) \<and>
         (framebuffers pp1 = (None, None) \<longrightarrow>
            getReadTexture pp1 = None \<and> getWriteFramebuffer pp1 = None)"
proof -
  have dims: "pp_width pp1 = w \<and> pp_height pp1 = h"
    and one: "fst (framebuffers pp1) = None \<or> snd (framebuffers pp1) = None"
    using pp_resize_failed(1,2)[OF assms] by simp_all
  have again: "pp_resize E' w h (pp1, g1) = (True, pp1, g1)"
    using dims by (simp add: pp_resize_def)
  have some: "getReadTexture pp1 = None \<or> getWriteFramebuffer pp1 = None"
    using one by (auto simp: getReadTexture_def getWriteFramebuffer_def slot_def Let_def)
  have both: "getReadTexture pp1 = None \<and> getWriteFramebuffer pp1 = None"
    if "framebuffers pp1 = (None, None)"
    using that by (simp add: getReadTexture_def getWriteFramebuffer_def slot_def Let_def)
  from again some both show ?thesis by blast
qed

text \<open>The theorem at a first resize in which every request fails: the second call asks a
  context in which everything would succeed, and still creates nothing.\<close>

theorem resize_after_failure_is_noop_witness:
  "pp_resize (env_until 0) 200 200 (new_PingPongBuffer, gl_init) =
     (False, new_PingPongBuffer\<lparr>pp_width := 200, pp_height := 200\<rparr>, gl_init\<lparr>requests := 2\<rparr>) \<and>
   pp_resize (env_until 100) 200 200
     (new_PingPongBuffer\<lparr>pp_width := 200, pp_height := 200\<rparr>, gl_init\<lparr>requests := 2\<rparr>) =
     (True, new_PingPongBuffer\<lparr>pp_width := 200, pp_height := 200\<rparr>, gl_init\<lparr>requests := 2\<rparr>) \<and>
   framebuffers (new_PingPongBuffer\<lparr>pp_width := 200, pp_height := 200\<rparr>) = (None, None) \<and>
   getReadTexture (new_PingPongBuffer\<lparr>pp_width := 200, pp_height := 200\<rparr>) = None \<and>
   getWriteFramebuffer (new_PingPongBuffer\<lparr>pp_width := 200, pp_height := 200\<rparr>) = None"
proof -
  have run: "pp_resize (env_until 0) 200 200 (new_PingPongBuffer, gl_init) =
     (False, new_PingPongBuffer\<lparr>pp_width := 200, pp_height := 200\<rparr>, gl_init\<lparr>requests := 2\<rparr>)"
    by (simp add: run_pp_resize)
  have empty: "framebuffers (new_PingPongBuffer\<lparr>pp_width := 200, pp_height := 200\<rparr>) = (None, None)"
    by (simp add: new_PingPongBuffer_def)
  from resize_after_failure_is_noop[OF run, of "env_until 100"] run empty
  show ?thesis by simp
qed

text \<open>Claim C10 as written fails when only the second framebuffer cannot be created: the
  resize reports failure and \<^verbatim>\<open>getReadTexture\<close> returns the texture of the first.\<close>

theorem failed_resize_read_texture_not_null:
  "fst (pp_resize (env_until 3) 200 200 (new_PingPongBuffer, gl_init)) = False \<and>
   getReadTexture (fst (snd (pp_resize (env_until 3) 200 200 (new_PingPongBuffer, gl_init)))) =
     Some 2"
  by (simp add: first_resize_partial_run getReadTexture_def slot_def)

section \<open>The program cache\<close>

lemma compileShader_frame:
  "draws (snd (compileShader E src g)) = draws g"
  "requests (snd (compileShader E src g)) = requests g + 1"
  by (simp_all add: compileShader_def gl_create_def gl_delete_def Let_def)

lemma createProgram_draws: "draws (snd (createProgram E vs fs g)) = draws g"
  by (simp add: createProgram_def case_prod_beta compileShader_frame gl_create_def
        gl_delete_def split: option.splits)

lemma createProgram_requests: "requests g < requests (snd (createProgram E vs fs g))"
  by (simp add: createProgram_def case_prod_beta compileShader_frame gl_create_def
        gl_delete_def split: option.splits)

lemma getProgram_None:
  assumes "getProgram E key vs fs (progs, g) = (None, progs1, g1)"
  shows "progs1 = progs" "progs key = None" "createProgram E vs fs g = (None, g1)"
  using assms by (auto simp: getProgram_def split: option.splits prod.splits)

lemma getProgram_Some:
  assumes "getProgram E key vs fs (progs, g) = (Some p, progs1, g1)"
  shows "progs1 key = Some p"
  using assms by (auto simp: getProgram_def split: option.splits prod.splits)

lemma getProgram_draws: "draws (snd (snd (getProgram E key vs fs (progs, g)))) = draws g"
  using createProgram_draws[of E vs fs g]
  by (auto simp: getProgram_def split: option.splits prod.splits)

lemma getProgram_cases:
  "getProgram E key vs fs (progs, g) = (r, progs1, g1) \<Longrightarrow>
   progs1 key = r \<and> draws g1 = draws g"
  using getProgram_draws[of E key vs fs progs g]
  by (cases r) (auto dest: getProgram_None getProgram_Some)

lemma getProgram_retry:
  assumes "progs key = None"
  shows "requests g < requests (snd (snd (getProgram E key vs fs (progs, g))))"
  using assms createProgram_requests[of g E vs fs]
  by (auto simp: getProgram_def split: option.splits prod.splits)

lemma getProgram_retry_Some:
  assumes "progs key = None" "createProgram E vs fs g = (Some p, g2)"
  shows "getProgram E key vs fs (progs, g) = (Some p, progs(key \<mapsto> p), g2)"
  using assms by (simp add: getProgram_def)

lemma render_pass_skipped:
  assumes "getProgram E (type_name (layer_type (ls ! i))) quadVertexShader
             (getFragmentShader (layer_type (ls ! i))) (programs c, gl c) = (None, progs1, g1)"
  shows "render_pass E ls i (c, input) = (c\<lparr>gl := g1\<rparr>, input)"
  using assms getProgram_None(1)[OF assms]
  by (simp add: render_pass_def Let_def)

lemmas run_getProgram =
  getProgram_def createProgram_def compileShader_def gl_create_def gl_delete_def Let_def
  gl_init_def env_until_def env_rejecting_def compositor_100_def two_layers_def
  layer_type_def insert_commute insert_Diff_if eval_nat_numeral

text \<open>Two calls of \<^verbatim>\<open>getProgram\<close> for the brightness program, in a context that rejects
  the brightness fragment shader.\<close>

lemma rejected_brightness_run:
  "getProgram (env_rejecting brightnessFragmentShader) ''brightness'' quadVertexShader
     brightnessFragmentShader (Map.empty, gl_init) =
   (None, Map.empty, gl_rejected_once)"
  by (simp add: run_getProgram gl_rejected_once_def)

lemma rejected_brightness_again_run:
  "getProgram (env_rejecting brightnessFragmentShader) ''brightness'' quadVertexShader
     brightnessFragmentShader
     (Map.empty, gl_rejected_once) =
   (None, Map.empty, gl_rejected_twice)"
  by (simp add: run_getProgram gl_rejected_once_def gl_rejected_twice_def)

lemma rejected_brightness_pass_run:
  "getProgram (env_rejecting brightnessFragmentShader)
     (type_name (layer_type (two_layers ! 0))) quadVertexShader
     (getFragmentShader (layer_type (two_layers ! 0)))
     (programs compositor_100, gl compositor_100) =
   (None, Map.empty, gl_after_rejection)"
  by (simp add: run_getProgram gl_after_rejection_def)

lemma retry_brightness_run:
  "createProgram (env_until 100) quadVertexShader
     (getFragmentShader (layer_type (two_layers ! 0))) gl_after_rejection =
   (Some 11, gl_after_retry)"
  by (simp add: run_getProgram gl_after_rejection_def gl_after_retry_def)

text \<open>
  Claim C7, as the code has it by design. When \<^verbatim>\<open>getProgram\<close> fails for the type of the
  layer of a pass, nothing is recorded for that type: the program cache is unchanged and
  has no entry for the type, so the type is not marked as failed. The pass of that layer
  is a no-op, as the claim says: it leaves the compositor and the input texture as they
  are, apart from the requests that the failed attempt made to the context. And a later
  \<^verbatim>\<open>getProgram\<close> for the same type issues new requests to the context, and returns and
  caches the program when \<^verbatim>\<open>createProgram\<close> then succeeds. What a skipped pass does to the
  other layers of the composite is not part of this statement.
\<close>

theorem failed_program_is_retried:
  assumes "getProgram E (type_name (layer_type (ls ! i))) quadVertexShader
             (getFragmentShader (layer_type (ls ! i))) (programs c, gl c) = (None, progs1, g1)"
  shows "progs1 = programs c \<and> programs c (type_name (layer_type (ls ! i))) = None \<and>
         render_pass E ls i (c, input) = (c\<lparr>gl := g1\<rparr>, input) \<and>
         draws g1 = draws (gl c) \<and>
         requests g1 < requests (snd (snd (getProgram E' (type_name (layer_type (ls ! i)))
              quadVertexShader (getFragmentShader (layer_type (ls ! i))) (programs c, g1)))) \<and>
         (\<forall>p g2. createProgram E' quadVertexShader (getFragmentShader (layer_type (ls ! i))) g1 =
                    (Some p, g2) \<longrightarrow>
            getProgram E' (type_name (layer_type (ls ! i))) quadVertexShader
              (getFragmentShader (layer_type (ls ! i))) (programs c, g1) =
            (Some p, (programs c)(type_name (layer_type (ls ! i)) \<mapsto> p), g2))"
proof -
  note n = getProgram_None[OF assms]
  have d: "draws g1 = draws (gl c)"
    using getProgram_draws[of E "type_name (layer_type (ls ! i))" quadVertexShader
        "getFragmentShader (layer_type (ls ! i))" "programs c" "gl c"] assms by simp
  show ?thesis
    using n(1) n(2) render_pass_skipped[OF assms] d
      getProgram_retry[where progs = "programs c"
        and key = "type_name (layer_type (ls ! i))", OF n(2)]
      getProgram_retry_Some[where progs = "programs c"
        and key = "type_name (layer_type (ls ! i))", OF n(2)]
    by blast
qed

text \<open>The theorem at the first pass of a brightness layer followed by a vignette layer,
  in a context that rejects the brightness fragment shader; the later call asks a context
  that accepts it.\<close>

theorem failed_program_is_retried_witness:
  "getProgram (env_rejecting brightnessFragmentShader)
     (type_name (layer_type (two_layers ! 0))) quadVertexShader
     (getFragmentShader (layer_type (two_layers ! 0)))
     (programs compositor_100, gl compositor_100) = (None, Map.empty, gl_after_rejection) \<and>
   render_pass (env_rejecting brightnessFragmentShader) two_layers 0 (compositor_100, Some 7) =
     (compositor_100\<lparr>gl := gl_after_rejection\<rparr>, Some 7) \<and>
   draws gl_after_rejection = draws (gl compositor_100) \<and>
   createProgram (env_until 100) quadVertexShader
     (getFragmentShader (layer_type (two_layers ! 0))) gl_after_rejection =
     (Some 11, gl_after_retry) \<and>
   getProgram (env_until 100) (type_name (layer_type (two_layers ! 0))) quadVertexShader
     (getFragmentShader (layer_type (two_layers ! 0)))
     (programs compositor_100, gl_after_rejection) =
     (Some 11, (programs compositor_100)(type_name (layer_type (two_layers ! 0)) \<mapsto> 11),
      gl_after_retry)"
  using failed_program_is_retried[OF rejected_brightness_pass_run, of "Some 7" "env_until 100"]
    rejected_brightness_pass_run retry_brightness_run
  by blast

section \<open>One pass\<close>

lemma gl_uniform_frame:
  "draws (gl_uniform loc v g) = draws g"
  "current_program (gl_uniform loc v g) = current_program g"
  "bound_framebuffer (gl_uniform loc v g) = bound_framebuffer g"
  "bound_texture (gl_uniform loc v g) = bound_texture g"
  "viewport (gl_uniform loc v g) = viewport g"
  by (simp_all add: gl_uniform_def split: option.splits)

lemma gl_uniform_set:
  "current_program g = Some p \<Longrightarrow> uniforms (gl_uniform (Some name) v g) p name = Some v"
  by (simp add: gl_uniform_def)

lemma setShaderUniforms_frame:
  "draws (setShaderUniforms E p props g) = draws g"
  "current_program (setShaderUniforms E p props g) = current_program g"
  "bound_framebuffer (setShaderUniforms E p props g) = bound_framebuffer g"
  "bound_texture (setShaderUniforms E p props g) = bound_texture g"
  "viewport (setShaderUniforms E p props g) = viewport g"
  by (cases props; simp add: gl_uniform_frame Let_def)+

text \<open>The bindings under which an executed pass draws.\<close>

lemma render_pass_executed:
  assumes prog: "getProgram E (type_name (layer_type (ls ! i))) quadVertexShader
             (getFragmentShader (layer_type (ls ! i))) (programs c, gl c) = (Some p, progs1, g1)"
    and vao: "quad_vao c \<noteq> None"
  shows "\<exists>d. draws (gl (fst (render_pass E ls i (c, input)))) = draws (gl c) @ [d] \<and>
             dc_program d = Some p \<and>
             dc_texture d = input \<and>
             dc_target d = (if int i = int (length ls) - 1 then None
                            else getWriteFramebuffer (pingPong c)) \<and>
             dc_viewport d = (width c, height c) \<and>
             (uniform_active E p ''u_flipY'' \<longrightarrow>
                dc_uniforms d ''u_flipY'' = Some (Uniform1i (if i = 0 then 1 else 0)))"
proof -
  have d1: "draws g1 = draws (gl c)"
    using getProgram_draws[of E "type_name (layer_type (ls ! i))" quadVertexShader
        "getFragmentShader (layer_type (ls ! i))" "programs c" "gl c"] prog by simp
  show ?thesis
    using vao d1
    by (simp add: render_pass_def prog Let_def quad_draw_def gl_drawArrays_def bindTexture_def
        gl_uniform_frame setShaderUniforms_frame getUniformLocation_def gl_uniform_set)
qed

lemma render_pass_state:
  assumes prog: "getProgram E (type_name (layer_type (ls ! i))) quadVertexShader
             (getFragmentShader (layer_type (ls ! i))) (programs c, gl c) = (Some p, progs1, g1)"
  shows "pingPong (fst (render_pass E ls i (c, input))) =
           (if int i = int (length ls) - 1 then pingPong c else swap_buffers (pingPong c))"
    and "snd (render_pass E ls i (c, input)) =
           (if int i = int (length ls) - 1 then input
            else getReadTexture (swap_buffers (pingPong c)))"
  by (simp_all add: render_pass_def prog Let_def)

lemma render_pass_frame:
  "quad_vao (fst (render_pass E ls i s)) = quad_vao (fst s)"
  "framebuffers (pingPong (fst (render_pass E ls i s))) = framebuffers (pingPong (fst s))"
  "textures (fst (render_pass E ls i s)) = textures (fst s)"
proof -
  obtain c inp where s: "s = (c, inp)" by (cases s)
  obtain r progs1 g1
    where gp: "getProgram E (type_name (layer_type (ls ! i))) quadVertexShader
             (getFragmentShader (layer_type (ls ! i))) (programs c, gl c) = (r, progs1, g1)"
    by (metis prod_cases3)
  show "quad_vao (fst (render_pass E ls i s)) = quad_vao (fst s)"
    "framebuffers (pingPong (fst (render_pass E ls i s))) = framebuffers (pingPong (fst s))"
    "textures (fst (render_pass E ls i s)) = textures (fst s)"
    unfolding s by (cases r; simp add: render_pass_def gp Let_def swap_buffers_def)+
qed

text \<open>A context in which nothing fails always has the program.\<close>

lemma working_createProgram: "working E \<Longrightarrow> fst (createProgram E vs fs g) \<noteq> None"
  by (simp add: working_def createProgram_def compileShader_def gl_create_def Let_def)

lemma working_getProgram:
  "working E \<Longrightarrow> getProgram E key vs fs (progs, g) \<noteq> (None, progs1, g1)"
  using working_createProgram[of E vs fs g]
  by (auto simp: getProgram_def split: option.splits prod.splits)

text \<open>A pass is skipped, which needs a failure of the context, or draws once.\<close>

lemma render_pass_step:
  assumes vao: "quad_vao c \<noteq> None" and i: "i < length ls"
  shows "(\<not> working E \<and> draws (gl (fst (render_pass E ls i (c, inp)))) = draws (gl c) \<and>
          pingPong (fst (render_pass E ls i (c, inp))) = pingPong c \<and>
          snd (render_pass E ls i (c, inp)) = inp)
       \<or> (\<exists>d. draws (gl (fst (render_pass E ls i (c, inp)))) = draws (gl c) @ [d] \<and>
             dc_texture d = inp \<and>
             dc_target d = (if i = length ls - 1 then None
                            else getWriteFramebuffer (pingPong c)) \<and>
             (\<exists>p. dc_program d = Some p \<and>
                  (uniform_active E p ''u_flipY'' \<longrightarrow>
                   dc_uniforms d ''u_flipY'' = Some (Uniform1i (if i = 0 then 1 else 0)))) \<and>
             pingPong (fst (render_pass E ls i (c, inp))) =
               (if i = length ls - 1 then pingPong c else swap_buffers (pingPong c)) \<and>
             snd (render_pass E ls i (c, inp)) =
               (if i = length ls - 1 then inp
                else getReadTexture (swap_buffers (pingPong c))))"
proof -
  have last: "(int i = int (length ls) - 1) = (i = length ls - 1)"
    using i by auto
  obtain r progs1 g1
    where gp: "getProgram E (type_name (layer_type (ls ! i))) quadVertexShader
             (getFragmentShader (layer_type (ls ! i))) (programs c, gl c) = (r, progs1, g1)"
    by (metis prod_cases3)
  show ?thesis
  proof (cases r)
    case None
    with gp have gp': "getProgram E (type_name (layer_type (ls ! i))) quadVertexShader
             (getFragmentShader (layer_type (ls ! i))) (programs c, gl c) = (None, progs1, g1)"
      by simp
    have "draws g1 = draws (gl c)" using getProgram_cases[OF gp'] by simp
    moreover have "\<not> working E" using working_getProgram[of E] gp' by blast
    ultimately show ?thesis
      by (simp add: render_pass_skipped[OF gp'])
  next
    case (Some p)
    with gp have gp': "getProgram E (type_name (layer_type (ls ! i))) quadVertexShader
             (getFragmentShader (layer_type (ls ! i))) (programs c, gl c) = (Some p, progs1, g1)"
      by simp
    from render_pass_executed[OF gp' vao, of inp] render_pass_state[OF gp', of inp]
    show ?thesis unfolding last by auto
  qed
qed

section \<open>No active layer\<close>

lemma getTexture_cases:
  "getTexture E src (texs, g) = (r, texs1, g1) \<Longrightarrow>
   texs1 src = r \<and> draws g1 = draws g \<and> compiled g1 = compiled g"
  by (auto simp: getTexture_def createTextureFromImage_def gl_create_def
      split: option.splits prod.splits if_splits)

lemma working_getTexture:
  "working E \<Longrightarrow> fst (getTexture E src (texs, g)) \<noteq> None"
  by (simp add: working_def getTexture_def createTextureFromImage_def gl_create_def
      split: option.splits)

lemma createProgram_compiled:
  "createProgram E vs fs g = (Some p, g1) \<Longrightarrow> compiled g1 = compiled g @ [vs, fs]"
  by (auto simp: createProgram_def compileShader_def gl_create_def gl_delete_def Let_def
      split: prod.splits option.splits if_splits)

lemma getProgram_compiled:
  assumes "getProgram E key vs fs (progs, g) = (Some p, progs1, g1)"
  shows "compiled g1 = compiled g @ (if progs key = None then [vs, fs] else [])"
  using assms createProgram_compiled[of E vs fs g p]
  by (auto simp: getProgram_def split: option.splits prod.splits)

text \<open>What \<^verbatim>\<open>renderPassthrough\<close> leaves alone, and the one draw call it issues.\<close>

lemma renderPassthrough_frame:
  "pingPong (renderPassthrough E c t) = pingPong c"
  "textures (renderPassthrough E c t) = textures c"
proof -
  obtain r progs1 g1
    where gp: "getProgram E ''passthrough'' quadVertexShader passthroughFragmentShader
                 (programs c, gl c) = (r, progs1, g1)"
    by (metis prod_cases3)
  show "pingPong (renderPassthrough E c t) = pingPong c"
    "textures (renderPassthrough E c t) = textures c"
    by (cases r; simp add: renderPassthrough_def gp Let_def)+
qed

lemma renderPassthrough_skipped:
  assumes "getProgram E ''passthrough'' quadVertexShader passthroughFragmentShader
             (programs c, gl c) = (None, progs1, g1)"
  shows "draws (gl (renderPassthrough E c t)) = draws (gl c)"
  using getProgram_cases[OF assms] by (simp add: renderPassthrough_def assms)

lemma renderPassthrough_drawn:
  assumes gp: "getProgram E ''passthrough'' quadVertexShader passthroughFragmentShader
             (programs c, gl c) = (Some p, progs1, g1)"
  shows "programs (renderPassthrough E c t) ''passthrough'' = Some p"
    and "compiled (gl (renderPassthrough E c t)) = compiled g1"
    and "quad_vao c = None \<Longrightarrow> draws (gl (renderPassthrough E c t)) = draws (gl c)"
    and "quad_vao c \<noteq> None \<Longrightarrow>
         \<exists>d. draws (gl (renderPassthrough E c t)) = draws (gl c) @ [d] \<and>
             dc_program d = Some p \<and> dc_target d = None \<and> dc_texture d = Some t \<and>
             dc_viewport d = (width c, height c) \<and>
             (uniform_active E p ''u_image'' \<longrightarrow>
                dc_uniforms d ''u_image'' = Some (Uniform1i 0)) \<and>
             (uniform_active E p ''u_flipY'' \<longrightarrow>
                dc_uniforms d ''u_flipY'' = Some (Uniform1i 1))"
proof -
  note f = getProgram_cases[OF gp]
  show "programs (renderPassthrough E c t) ''passthrough'' = Some p"
    using f by (simp add: renderPassthrough_def gp Let_def)
  show "compiled (gl (renderPassthrough E c t)) = compiled g1"
    by (simp add: renderPassthrough_def gp Let_def quad_draw_def gl_drawArrays_def
        bindTexture_def gl_uniform_def getUniformLocation_def)
  show "quad_vao c = None \<Longrightarrow> draws (gl (renderPassthrough E c t)) = draws (gl c)"
    using f by (simp add: renderPassthrough_def gp Let_def quad_draw_def bindTexture_def
        gl_uniform_frame)
  show "quad_vao c \<noteq> None \<Longrightarrow>
         \<exists>d. draws (gl (renderPassthrough E c t)) = draws (gl c) @ [d] \<and>
             dc_program d = Some p \<and> dc_target d = None \<and> dc_texture d = Some t \<and>
             dc_viewport d = (width c, height c) \<and>
             (uniform_active E p ''u_image'' \<longrightarrow>
                dc_uniforms d ''u_image'' = Some (Uniform1i 0)) \<and>
             (uniform_active E p ''u_flipY'' \<longrightarrow>
                dc_uniforms d ''u_flipY'' = Some (Uniform1i 1))"
    using f by (simp add: renderPassthrough_def gp Let_def quad_draw_def gl_drawArrays_def
        bindTexture_def gl_uniform_def getUniformLocation_def)
qed

text \<open>A list of disabled layers and of layers at a neutral default has no active layer.\<close>

lemma inactive_filter:
  assumes "\<forall>l \<in> set layers.
             \<not> enabled l \<or>
             layer_type l \<in> neutral_default_types \<and>
               properties l = SHADER_DEFAULTS (layer_type l) \<or>
             \<not> hasEffect l"
  shows "filter hasEffect layers = []"
proof -
  have "\<not> hasEffect l" if "l \<in> set layers" for l
    using assms that hasEffect_defaults[of l "layer_type l"]
    by (auto simp: hasEffect_def)
  then show ?thesis by (simp add: filter_empty_conv)
qed

text \<open>
  Claim C4, as the code has it. When every layer of the list is disabled, or is at the
  declared defaults of one of the eight types whose default is neutral, or is otherwise
  rejected by \<^verbatim>\<open>hasEffect\<close>, then \<^verbatim>\<open>render\<close> does what it does for the empty layer list
  and leaves the buffer pair as it is (no resize, no swap), and it adds at most one draw
  call, exactly one when nothing fails in the context and the quad has its vertex array.
  That draw call goes to the canvas (no framebuffer bound) with the viewport of the
  compositor's size, reads the texture of the source, and uses the program cached as
  \<^verbatim>\<open>passthrough\<close> with \<^verbatim>\<open>u_image\<close> set to 0 and \<^verbatim>\<open>u_flipY\<close> set to 1, when the program has
  them. When that program was not cached before, the sources compiled for it are the quad
  vertex shader and the passthrough fragment shader; nothing else is compiled.
\<close>

theorem no_active_layer_passthrough:
  assumes "\<forall>l \<in> set layers.
             \<not> enabled l \<or>
             layer_type l \<in> neutral_default_types \<and>
               properties l = SHADER_DEFAULTS (layer_type l) \<or>
             \<not> hasEffect l"
  shows "render E c src layers = render E c src [] \<and>
         pingPong (render E c src layers) = pingPong c \<and>
         (\<exists>ds. draws (gl (render E c src layers)) = draws (gl c) @ ds \<and>
               length ds \<le> 1 \<and>
               (working E \<and> quad_vao c \<noteq> None \<longrightarrow> length ds = 1) \<and>
               (ds \<noteq> [] \<longrightarrow>
                  compiled (gl (render E c src layers)) =
                  compiled (gl c) @
                    (if programs c ''passthrough'' = None
                     then [quadVertexShader, passthroughFragmentShader] else [])) \<and>
               (\<forall>d \<in> set ds.
                  dc_target d = None \<and> dc_viewport d = (width c, height c) \<and>
                  dc_texture d \<noteq> None \<and>
                  dc_texture d = textures (render E c src layers) src \<and>
                  (\<exists>p. dc_program d = Some p \<and>
                       programs (render E c src layers) ''passthrough'' = Some p \<and>
                       (uniform_active E p ''u_image'' \<longrightarrow>
                          dc_uniforms d ''u_image'' = Some (Uniform1i 0)) \<and>
                       (uniform_active E p ''u_flipY'' \<longrightarrow>
                          dc_uniforms d ''u_flipY'' = Some (Uniform1i 1)))))"
proof -
  let ?r = "render E c src layers"
  have none: "filter hasEffect layers = []" using inactive_filter[OF assms] .
  obtain r texs1 g1 where gt: "getTexture E src (textures c, gl c) = (r, texs1, g1)"
    by (metis prod_cases3)
  note f = getTexture_cases[OF gt]
  have same: "?r = render E c src []"
    using none by (cases r) (simp_all add: render_def gt Let_def)
  show ?thesis
  proof (cases r)
    case None
    then have r: "?r = c\<lparr>gl := g1, textures := texs1\<rparr>"
      by (simp add: render_def gt)
    have w: "\<not> working E" using working_getTexture[of E src "textures c" "gl c"] gt None by auto
    have "draws (gl ?r) = draws (gl c) @ []" "pingPong ?r = pingPong c"
      using f by (simp_all add: r)
    with same w show ?thesis by (intro conjI exI[of _ "[]"]) simp_all
  next
    case (Some t)
    let ?c1 = "c\<lparr>gl := g1, textures := texs1\<rparr>"
    have r: "?r = renderPassthrough E ?c1 t"
      using none by (simp add: render_def gt Some Let_def)
    have pp: "pingPong ?r = pingPong c" by (simp add: r renderPassthrough_frame)
    have tx: "textures ?r src = Some t" using f Some by (simp add: r renderPassthrough_frame)
    obtain q progs1 g2
      where gp: "getProgram E ''passthrough'' quadVertexShader passthroughFragmentShader
                   (programs ?c1, gl ?c1) = (q, progs1, g2)"
      by (metis prod_cases3)
    show ?thesis
    proof (cases q)
      case None
      with gp have gp': "getProgram E ''passthrough'' quadVertexShader passthroughFragmentShader
                   (programs ?c1, gl ?c1) = (None, progs1, g2)" by simp
      have w: "\<not> working E" using working_getProgram[of E] gp' by blast
      have "draws (gl ?r) = draws (gl c) @ []"
        using renderPassthrough_skipped[OF gp', of t] f by (simp add: r)
      with same pp w show ?thesis by (intro conjI exI[of _ "[]"]) simp_all
    next
      case p: (Some p)
      with gp have gp': "getProgram E ''passthrough'' quadVertexShader passthroughFragmentShader
                   (programs ?c1, gl ?c1) = (Some p, progs1, g2)" by simp
      note d = renderPassthrough_drawn[OF gp', of t]
      have cmp: "compiled (gl ?r) = compiled (gl c) @
                   (if programs c ''passthrough'' = None
                    then [quadVertexShader, passthroughFragmentShader] else [])"
        using getProgram_compiled[of E "''passthrough''" quadVertexShader
            passthroughFragmentShader "programs c" g1 p progs1 g2] gp' d(2) f
        by (simp add: r)
      show ?thesis
      proof (cases "quad_vao c = None")
        case True
        then have "draws (gl ?r) = draws (gl c) @ []" using d(3) f by (simp add: r)
        with same pp True show ?thesis by (intro conjI exI[of _ "[]"]) simp_all
      next
        case False
        with d(4) obtain dd where dd: "draws (gl ?r) = draws (gl c) @ [dd]"
          "dc_program dd = Some p" "dc_target dd = None" "dc_texture dd = Some t"
          "dc_viewport dd = (width c, height c)"
          "uniform_active E p ''u_image'' \<longrightarrow> dc_uniforms dd ''u_image'' = Some (Uniform1i 0)"
          "uniform_active E p ''u_flipY'' \<longrightarrow> dc_uniforms dd ''u_flipY'' = Some (Uniform1i 1)"
          using f by (auto simp: r)
        have pr: "programs ?r ''passthrough'' = Some p" using d(1) by (simp add: r)
        show ?thesis
          apply (intro conjI exI[of _ "[dd]"])
               apply (rule same)
              apply (rule pp)
             apply (rule dd(1))
            apply simp
           apply simp
          using cmp apply simp
          using dd pr tx apply simp
          done
      qed
    qed
  qed
qed


lemmas run_render =
  render_def renderPassthrough_def getTexture_def createTextureFromImage_def hasEffect_def
  createShaderLayer_def quad_draw_def gl_drawArrays_def bindTexture_def gl_uniform_def
  getUniformLocation_def run_getProgram

lemma working_env_working: "working env_working"
  by (simp add: working_def env_working_def)

lemma inactive_layers_run:
  "textures (render env_working compositor_100 ''img'' inactive_layers) ''img'' = Some 7 \<and>
   programs (render env_working compositor_100 ''img'' inactive_layers) ''passthrough'' =
     Some 10"
  by (simp add: run_render inactive_layers_def env_working_def)

text \<open>The theorem at a disabled pixelate layer followed by a new brightness layer, in a
  context in which nothing fails.\<close>

theorem no_active_layer_passthrough_witness:
  "\<not> enabled (inactive_layers ! 0) \<and>
   layer_type (inactive_layers ! 1) \<in> neutral_default_types \<and>
   properties (inactive_layers ! 1) = SHADER_DEFAULTS (layer_type (inactive_layers ! 1)) \<and>
   length inactive_layers = 2 \<and>
   render env_working compositor_100 ''img'' inactive_layers =
     render env_working compositor_100 ''img'' [] \<and>
   pingPong (render env_working compositor_100 ''img'' inactive_layers) =
     pingPong compositor_100 \<and>
   compiled (gl (render env_working compositor_100 ''img'' inactive_layers)) =
     [quadVertexShader, passthroughFragmentShader] \<and>
   (\<exists>d. draws (gl (render env_working compositor_100 ''img'' inactive_layers)) = [d] \<and>
        dc_program d = Some 10 \<and> dc_target d = None \<and> dc_texture d = Some 7 \<and>
        dc_viewport d = (100, 100) \<and>
        dc_uniforms d ''u_image'' = Some (Uniform1i 0) \<and>
        dc_uniforms d ''u_flipY'' = Some (Uniform1i 1))"
proof -
  let ?r = "render env_working compositor_100 ''img'' inactive_layers"
  have h0: "\<not> enabled (inactive_layers ! 0)"
    and h1: "layer_type (inactive_layers ! 1) \<in> neutral_default_types"
      "properties (inactive_layers ! 1) = SHADER_DEFAULTS (layer_type (inactive_layers ! 1))"
    and len: "length inactive_layers = 2"
    by (simp_all add: inactive_layers_def createShaderLayer_def layer_type_def
        neutral_default_types_def)
  have h: "\<forall>l \<in> set inactive_layers.
             \<not> enabled l \<or>
             layer_type l \<in> neutral_default_types \<and>
               properties l = SHADER_DEFAULTS (layer_type l) \<or>
             \<not> hasEffect l"
    by (simp add: inactive_layers_def createShaderLayer_def layer_type_def
        neutral_default_types_def)
  have c: "quad_vao compositor_100 \<noteq> None" "draws (gl compositor_100) = []"
    "compiled (gl compositor_100) = []" "programs compositor_100 ''passthrough'' = None"
    "width compositor_100 = 100" "height compositor_100 = 100"
    by (simp_all add: compositor_100_def gl_init_def)
  have act: "uniform_active env_working p n" for p n by (simp add: env_working_def)
  note t = no_active_layer_passthrough[OF h, of env_working compositor_100 "''img''"]
  from t have same: "?r = render env_working compositor_100 ''img'' []"
    and pp: "pingPong ?r = pingPong compositor_100" by blast+
  from t obtain ds where ds: "draws (gl ?r) = draws (gl compositor_100) @ ds"
    "working env_working \<and> quad_vao compositor_100 \<noteq> None \<longrightarrow> length ds = 1"
    "ds \<noteq> [] \<longrightarrow>
       compiled (gl ?r) =
       compiled (gl compositor_100) @
         (if programs compositor_100 ''passthrough'' = None
          then [quadVertexShader, passthroughFragmentShader] else [])"
    "\<forall>d \<in> set ds.
        dc_target d = None \<and> dc_viewport d = (width compositor_100, height compositor_100) \<and>
        dc_texture d \<noteq> None \<and> dc_texture d = textures ?r ''img'' \<and>
        (\<exists>p. dc_program d = Some p \<and> programs ?r ''passthrough'' = Some p \<and>
             (uniform_active env_working p ''u_image'' \<longrightarrow>
                dc_uniforms d ''u_image'' = Some (Uniform1i 0)) \<and>
             (uniform_active env_working p ''u_flipY'' \<longrightarrow>
                dc_uniforms d ''u_flipY'' = Some (Uniform1i 1)))"
    by blast
  from ds(2) working_env_working c(1) have "length ds = 1" by simp
  then obtain d where d: "ds = [d]" by (cases ds) auto
  from ds(1) d c(2) have dr: "draws (gl ?r) = [d]" by simp
  from ds(3) d c(3,4) have cmp: "compiled (gl ?r) = [quadVertexShader, passthroughFragmentShader]"
    by simp
  from ds(4) d inactive_layers_run act c(5,6)
  have props: "dc_program d = Some 10 \<and> dc_target d = None \<and> dc_texture d = Some 7 \<and>
        dc_viewport d = (100, 100) \<and>
        dc_uniforms d ''u_image'' = Some (Uniform1i 0) \<and>
        dc_uniforms d ''u_flipY'' = Some (Uniform1i 1)"
    by auto
  from h0 h1 len same pp cmp dr props show ?thesis by blast
qed

section \<open>The pass loop\<close>

lemma loop_frame:
  "quad_vao (fst (fold (render_pass E ls) [0..<m] (c0, i0))) = quad_vao c0 \<and>
   framebuffers (pingPong (fst (fold (render_pass E ls) [0..<m] (c0, i0)))) =
     framebuffers (pingPong c0) \<and>
   textures (fst (fold (render_pass E ls) [0..<m] (c0, i0))) = textures c0"
  by (induction m) (simp_all add: render_pass_frame)

text \<open>A skipped pass keeps the invariant.\<close>

lemma loop_inv_skip:
  assumes inv: "loop_inv E ls c0 i0 m s tr" and m: "m < length ls"
    and nw: "\<not> working E"
    and d: "draws (gl (fst s')) = draws (gl (fst s))"
    and pp: "pingPong (fst s') = pingPong (fst s)"
    and i: "snd s' = snd s"
  shows "loop_inv E ls c0 i0 (Suc m) s' tr"
proof -
  have sub: "set (map fst tr) \<subseteq> {0..<m}" using inv by (simp add: loop_inv_def)
  have 3: "set (map fst tr) \<subseteq> {0..<Suc m}"
  proof
    fix x assume "x \<in> set (map fst tr)"
    with sub have "x \<in> {0..<m}" by (rule subsetD)
    then show "x \<in> {0..<Suc m}" by simp
  qed
  show ?thesis
    unfolding loop_inv_def
    using inv m nw d pp i 3 by (simp add: loop_inv_def)
qed

text \<open>An executed pass extends the trace by its draw call.\<close>

lemma loop_inv_draw:
  assumes inv: "loop_inv E ls c0 i0 m s tr" and m: "m < length ls"
    and fbs: "framebuffers (pingPong (fst s)) = framebuffers (pingPong c0)"
    and d: "draws (gl (fst s')) = draws (gl (fst s)) @ [d]"
    and tex: "dc_texture d = snd s"
    and tgt: "dc_target d = (if m = length ls - 1 then None
                             else getWriteFramebuffer (pingPong (fst s)))"
    and flip: "\<exists>p. dc_program d = Some p \<and>
                 (uniform_active E p ''u_flipY'' \<longrightarrow>
                  dc_uniforms d ''u_flipY'' = Some (Uniform1i (if m = 0 then 1 else 0)))"
    and pp: "pingPong (fst s') =
               (if m = length ls - 1 then pingPong (fst s) else swap_buffers (pingPong (fst s)))"
    and i: "snd s' = (if m = length ls - 1 then snd s
                      else getReadTexture (swap_buffers (pingPong (fst s))))"
  shows "loop_inv E ls c0 i0 (Suc m) s' (tr @ [(m, d)])"
proof -
  let ?fbs = "framebuffers (pingPong c0)"
  let ?tr = "tr @ [(m, d)]"
  have dr: "draws (gl (fst s)) = draws (gl c0) @ map snd tr"
    and so: "sorted_wrt (<) (map fst tr)" and sub: "set (map fst tr) \<subseteq> {0..<m}"
    and cur: "currentIndex (pingPong (fst s)) = length tr mod 2"
    and inp: "snd s = (if tr = [] then i0
                       else map_option fb_texture (slot ?fbs (length tr mod 2)))"
    and ok: "\<forall>k < length tr. pass_draw_ok E (length ls) ?fbs i0 k (tr ! k)"
    and wk: "working E \<longrightarrow> map fst tr = [0..<m]"
    using inv m by (simp_all add: loop_inv_def)
  have par: "Suc (length tr mod 2) mod 2 = Suc (length tr) mod 2" by presburger
  have w: "getWriteFramebuffer (pingPong (fst s)) =
           map_option fb_framebuffer (slot ?fbs ((length tr + 1) mod 2))"
    by (simp add: getWriteFramebuffer_def Let_def cur fbs par)
  have r: "getReadTexture (swap_buffers (pingPong (fst s))) =
           map_option fb_texture (slot ?fbs ((length tr + 1) mod 2))"
    by (simp add: getReadTexture_def swap_buffers_def cur fbs par)
  have c: "currentIndex (swap_buffers (pingPong (fst s))) = (length tr + 1) mod 2"
    by (simp add: swap_buffers_def cur par)
  have 1: "draws (gl (fst s')) = draws (gl c0) @ map snd ?tr"
    using d dr by simp
  have lt: "\<forall>x \<in> set tr. fst x < m"
  proof
    fix x assume "x \<in> set tr"
    then have "fst x \<in> set (map fst tr)" by simp
    with sub have "fst x \<in> {0..<m}" by (rule subsetD)
    then show "fst x < m" by simp
  qed
  have 2: "sorted_wrt (<) (map fst ?tr)"
    using so lt by (simp add: sorted_wrt_append)
  have 3: "set (map fst ?tr) \<subseteq> {0..<Suc m}"
  proof
    fix x assume "x \<in> set (map fst ?tr)"
    then have "x = m \<or> x \<in> set (map fst tr)" by simp
    then show "x \<in> {0..<Suc m}"
    proof
      assume "x = m" then show ?thesis by simp
    next
      assume "x \<in> set (map fst tr)"
      with sub have "x \<in> {0..<m}" by (rule subsetD)
      then show ?thesis by simp
    qed
  qed
  have 4: "Suc m < length ls \<longrightarrow>
             currentIndex (pingPong (fst s')) = length ?tr mod 2 \<and>
             snd s' = (if ?tr = [] then i0
                       else map_option fb_texture (slot ?fbs (length ?tr mod 2)))"
  proof
    assume "Suc m < length ls"
    then have "m \<noteq> length ls - 1" by simp
    with pp i c r show "currentIndex (pingPong (fst s')) = length ?tr mod 2 \<and>
             snd s' = (if ?tr = [] then i0
                       else map_option fb_texture (slot ?fbs (length ?tr mod 2)))"
      by simp
  qed
  have new: "pass_draw_ok E (length ls) ?fbs i0 (length tr) (m, d)"
  proof -
    have a: "dc_target d = (if m = length ls - 1 then None
               else map_option fb_framebuffer (slot ?fbs ((length tr + 1) mod 2)))"
      using tgt w by simp
    have b: "dc_texture d = (if length tr = 0 then i0
               else map_option fb_texture (slot ?fbs (length tr mod 2)))"
      using tex inp by simp
    show ?thesis unfolding pass_draw_ok_def prod.case
      apply (intro conjI)
        apply (rule a)
       apply (rule b)
      apply (rule flip)
      done
  qed
  have 5: "\<forall>k < length ?tr. pass_draw_ok E (length ls) ?fbs i0 k (?tr ! k)"
  proof (intro allI impI)
    fix k assume "k < length ?tr"
    then have "k < length tr \<or> k = length tr" by (simp add: less_Suc_eq)
    then show "pass_draw_ok E (length ls) ?fbs i0 k (?tr ! k)"
    proof
      assume k: "k < length tr"
      with ok have "pass_draw_ok E (length ls) ?fbs i0 k (tr ! k)" by simp
      with k show ?thesis by (simp add: nth_append)
    next
      assume "k = length tr"
      with new show ?thesis by (simp add: nth_append)
    qed
  qed
  have 6: "working E \<longrightarrow> map fst ?tr = [0..<Suc m]" using wk by simp
  show ?thesis
    unfolding loop_inv_def
    apply (intro conjI)
         apply (rule 1)
        apply (rule 2)
       apply (rule 3)
      apply (rule 4)
     apply (rule 5)
    apply (rule 6)
    done
qed


lemma pass_loop_invariant:
  assumes vao: "quad_vao c0 \<noteq> None" and idx: "currentIndex (pingPong c0) = 0"
  shows "m \<le> length ls \<Longrightarrow>
         \<exists>tr. loop_inv E ls c0 i0 m (fold (render_pass E ls) [0..<m] (c0, i0)) tr"
proof (induction m)
  case 0
  show ?case by (rule exI[of _ "[]"]) (simp add: loop_inv_def idx)
next
  case (Suc m)
  let ?s = "fold (render_pass E ls) [0..<m] (c0, i0)"
  let ?s' = "fold (render_pass E ls) [0..<Suc m] (c0, i0)"
  have s': "?s' = render_pass E ls m (fst ?s, snd ?s)" by simp
  from Suc.prems have m: "m < length ls" and m': "m \<le> length ls" by simp_all
  from Suc.IH[OF m'] obtain tr where inv: "loop_inv E ls c0 i0 m ?s tr" ..
  from loop_frame[of E ls m c0 i0]
  have vao': "quad_vao (fst ?s) \<noteq> None"
    and fbs: "framebuffers (pingPong (fst ?s)) = framebuffers (pingPong c0)"
    using vao by simp_all
  from render_pass_step[OF vao' m, of E "snd ?s", folded s']
  show ?case
  proof
    assume "\<not> working E \<and> draws (gl (fst ?s')) = draws (gl (fst ?s)) \<and>
            pingPong (fst ?s') = pingPong (fst ?s) \<and> snd ?s' = snd ?s"
    then have "loop_inv E ls c0 i0 (Suc m) ?s' tr"
      using loop_inv_skip[OF inv m, of ?s'] by blast
    then show ?thesis ..
  next
    assume "\<exists>d. draws (gl (fst ?s')) = draws (gl (fst ?s)) @ [d] \<and>
             dc_texture d = snd ?s \<and>
             dc_target d = (if m = length ls - 1 then None
                            else getWriteFramebuffer (pingPong (fst ?s))) \<and>
             (\<exists>p. dc_program d = Some p \<and>
                  (uniform_active E p ''u_flipY'' \<longrightarrow>
                   dc_uniforms d ''u_flipY'' = Some (Uniform1i (if m = 0 then 1 else 0)))) \<and>
             pingPong (fst ?s') =
               (if m = length ls - 1 then pingPong (fst ?s) else swap_buffers (pingPong (fst ?s))) \<and>
             snd ?s' =
               (if m = length ls - 1 then snd ?s
                else getReadTexture (swap_buffers (pingPong (fst ?s))))"
    then obtain d where dd: "draws (gl (fst ?s')) = draws (gl (fst ?s)) @ [d] \<and>
             dc_texture d = snd ?s \<and>
             dc_target d = (if m = length ls - 1 then None
                            else getWriteFramebuffer (pingPong (fst ?s))) \<and>
             (\<exists>p. dc_program d = Some p \<and>
                  (uniform_active E p ''u_flipY'' \<longrightarrow>
                   dc_uniforms d ''u_flipY'' = Some (Uniform1i (if m = 0 then 1 else 0)))) \<and>
             pingPong (fst ?s') =
               (if m = length ls - 1 then pingPong (fst ?s) else swap_buffers (pingPong (fst ?s))) \<and>
             snd ?s' =
               (if m = length ls - 1 then snd ?s
                else getReadTexture (swap_buffers (pingPong (fst ?s))))" ..
    note d = dd[THEN conjunct1] dd[THEN conjunct2, THEN conjunct1]
      dd[THEN conjunct2, THEN conjunct2, THEN conjunct1]
      dd[THEN conjunct2, THEN conjunct2, THEN conjunct2, THEN conjunct1]
      dd[THEN conjunct2, THEN conjunct2, THEN conjunct2, THEN conjunct2, THEN conjunct1]
      dd[THEN conjunct2, THEN conjunct2, THEN conjunct2, THEN conjunct2, THEN conjunct2]
    have "loop_inv E ls c0 i0 (Suc m) ?s' (tr @ [(m, d)])"
      by (rule loop_inv_draw[OF inv m fbs d])
    then show ?thesis ..
  qed
qed

lemma pp_resize_draws: "draws (snd (snd (pp_resize E w h (pp, g)))) = draws g"
proof (cases "pp_width pp = w \<and> pp_height pp = h")
  case True
  then show ?thesis by (simp add: pp_resize_def)
next
  case False
  have "draws (snd (pp_dispose (pp', g))) = draws g" for pp'
    by (simp add: pp_dispose_def Let_def deleteFramebuffer_def gl_delete_def split: option.splits)
  then show ?thesis
    by (simp add: pp_resize_changed[OF False] Let_def createFramebuffer_draws)
qed

lemma render_trace:
  assumes act: "filter hasEffect layers \<noteq> []" and vao: "quad_vao c \<noteq> None"
  shows "\<exists>tr. draws (gl (render E c src layers)) = draws (gl c) @ map snd tr \<and>
              sorted_wrt (<) (map fst tr) \<and>
              set (map fst tr) \<subseteq> {0..<length (filter hasEffect layers)} \<and>
              (\<forall>k < length tr.
                 pass_draw_ok E (length (filter hasEffect layers))
                   (framebuffers (pingPong (render E c src layers)))
                   (textures (render E c src layers) src) k (tr ! k)) \<and>
              (working E \<longrightarrow> map fst tr = [0..<length (filter hasEffect layers)])"
proof -
  let ?n = "length (filter hasEffect layers)"
  let ?active = "sort_key order (filter hasEffect layers)"
  have n: "length ?active = ?n" by simp
  have pos: "0 < ?n" using act by simp
  obtain r texs g1 where gt: "getTexture E src (textures c, gl c) = (r, texs, g1)"
    by (metis prod_cases3)
  note f = getTexture_cases[OF gt]
  show ?thesis
  proof (cases r)
    case None
    then have r: "render E c src layers = c\<lparr>gl := g1, textures := texs\<rparr>"
      by (simp add: render_def gt)
    have nw: "\<not> working E"
      using working_getTexture[of E src "textures c" "gl c"] gt None by auto
    show ?thesis
      by (rule exI[of _ "[]"]) (simp add: r f nw)
  next
    case (Some t)
    let ?c1 = "c\<lparr>gl := g1, textures := texs\<rparr>"
    obtain ok pp g2
      where pr: "pp_resize E (width c) (height c) (pingPong c, g1) = (ok, pp, g2)"
      by (metis prod_cases3)
    have ne: "?active \<noteq> []"
    proof
      assume "?active = []"
      then have "length ?active = 0" by (simp del: length_sort)
      with n pos show False by simp
    qed
    let ?c2 = "?c1\<lparr>gl := g2, pingPong := reset pp\<rparr>"
    let ?s = "fold (render_pass E ?active) [0..<length ?active] (?c2, Some t)"
    have r: "render E c src layers = fst ?s"
      using ne by (simp add: render_def gt Some Let_def pr del: length_sort)
    have vao2: "quad_vao ?c2 \<noteq> None" using vao by simp
    have idx2: "currentIndex (pingPong ?c2) = 0" by (simp add: reset_def)
    from pass_loop_invariant[OF vao2 idx2, of "length ?active" ?active E "Some t"]
    obtain tr where inv: "loop_inv E ?active ?c2 (Some t) (length ?active) ?s tr"
      by blast
    have d2: "draws (gl ?c2) = draws (gl c)"
      using pp_resize_draws[of E "width c" "height c" "pingPong c" g1] pr f
      by simp
    have fr: "framebuffers (pingPong (fst ?s)) = framebuffers (pingPong ?c2)"
      "textures (fst ?s) = textures ?c2"
      using loop_frame[of E ?active "length ?active" ?c2 "Some t"] by simp_all
    have tx: "textures (fst ?s) src = Some t" using fr(2) f Some by simp
    have 1: "draws (gl (fst ?s)) = draws (gl c) @ map snd tr"
      and 2: "sorted_wrt (<) (map fst tr)"
      and 3: "set (map fst tr) \<subseteq> {0..<?n}"
      and 5: "\<forall>k < length tr. pass_draw_ok E ?n (framebuffers (pingPong ?c2)) (Some t) k (tr ! k)"
      and 6: "working E \<longrightarrow> map fst tr = [0..<?n]"
      using inv d2 unfolding loop_inv_def n by simp_all
    show ?thesis
      unfolding r fr(1) tx
      apply (rule exI[of _ tr])
      apply (intro conjI)
          apply (rule 1)
         apply (rule 2)
        apply (rule 3)
       apply (rule 5)
      apply (rule 6)
      done
  qed
qed

text \<open>The compositor of the examples is the one the code builds.\<close>

lemma compositor_100_built:
  "resize (env_until 100) 100 100 (new_ShaderCompositor (env_until 100) gl_init) =
   compositor_100"
  by (simp add: resize_def new_ShaderCompositor_def run_pp_resize compositor_100_def)


lemmas run_loop =
  run_render render_pass_def run_pp_resize reset_def swap_buffers_def getReadTexture_def
  getWriteFramebuffer_def slot_def props_have_effect.simps env_working_def

text \<open>A brightness layer followed by a vignette layer, composited in a context in which
  nothing fails: two draw calls, the first into the second framebuffer of the pair, the
  second from that framebuffer's texture to the canvas.\<close>

lemma two_pass_run:
  "map (\<lambda>d. (dc_program d, dc_target d, dc_texture d, dc_viewport d, dc_uniforms d ''u_flipY''))
     (draws (gl (render env_working compositor_100 ''img'' two_layers))) =
   [(Some 10, Some 5, Some 7, (100, 100), Some (Uniform1i 1)),
    (Some 13, None, Some 6, (100, 100), Some (Uniform1i 0))]"
  by (simp add: run_loop)


lemma two_layers_active:
  "filter hasEffect two_layers \<noteq> []" "length (filter hasEffect two_layers) = 2"
  by (simp_all add: two_layers_def hasEffect_def)

text \<open>
  Claim C2. In a composite with at least one active layer, the draw calls that
  \<^verbatim>\<open>render\<close> adds can be paired with pass indices that increase strictly and are below the
  number of active layers, so that every draw call has a program and, when the program has
  the uniform \<^verbatim>\<open>u_flipY\<close>, sees it as 1 if its pass index is 0 and as 0 otherwise. When
  nothing fails in the context, there is one draw call for every pass index.
\<close>

theorem flipY_only_on_first_pass:
  assumes "filter hasEffect layers \<noteq> []" and "quad_vao c \<noteq> None"
  shows "\<exists>tr. draws (gl (render E c src layers)) = draws (gl c) @ map snd tr \<and>
              sorted_wrt (<) (map fst tr) \<and>
              set (map fst tr) \<subseteq> {0..<length (filter hasEffect layers)} \<and>
              (\<forall>k < length tr.
                 \<exists>p. dc_program (snd (tr ! k)) = Some p \<and>
                     (uniform_active E p ''u_flipY'' \<longrightarrow>
                      dc_uniforms (snd (tr ! k)) ''u_flipY'' =
                        Some (Uniform1i (if fst (tr ! k) = 0 then 1 else 0)))) \<and>
              (working E \<longrightarrow> map fst tr = [0..<length (filter hasEffect layers)])"
proof -
  from render_trace[OF assms, of E src] obtain tr
    where tr: "draws (gl (render E c src layers)) = draws (gl c) @ map snd tr"
      "sorted_wrt (<) (map fst tr)"
      "set (map fst tr) \<subseteq> {0..<length (filter hasEffect layers)}"
      "\<forall>k < length tr.
                 pass_draw_ok E (length (filter hasEffect layers))
                   (framebuffers (pingPong (render E c src layers)))
                   (textures (render E c src layers) src) k (tr ! k)"
      "working E \<longrightarrow> map fst tr = [0..<length (filter hasEffect layers)]"
    by (elim exE conjE)
  have "\<exists>p. dc_program (snd (tr ! k)) = Some p \<and>
                     (uniform_active E p ''u_flipY'' \<longrightarrow>
                      dc_uniforms (snd (tr ! k)) ''u_flipY'' =
                        Some (Uniform1i (if fst (tr ! k) = 0 then 1 else 0)))"
    if "k < length tr" for k
    using tr(4) that by (simp add: pass_draw_ok_def case_prod_beta)
  with tr(1,2,3,5) show ?thesis by (intro exI[of _ tr]) simp
qed


text \<open>The theorem at a brightness layer followed by a vignette layer.\<close>

theorem flipY_only_on_first_pass_witness:
  "filter hasEffect two_layers \<noteq> [] \<and> quad_vao compositor_100 \<noteq> None \<and>
   working env_working \<and>
   (\<exists>tr. draws (gl (render env_working compositor_100 ''img'' two_layers)) =
            draws (gl compositor_100) @ map snd tr \<and>
         map fst tr = [0, 1 :: nat] \<and>
         dc_uniforms (snd (tr ! 0)) ''u_flipY'' = Some (Uniform1i 1) \<and>
         dc_uniforms (snd (tr ! 1)) ''u_flipY'' = Some (Uniform1i 0))"
proof -
  have vao: "quad_vao compositor_100 \<noteq> None" by (simp add: compositor_100_def)
  from flipY_only_on_first_pass[OF two_layers_active(1) vao, of env_working "''img''"]
  obtain tr
    where d: "draws (gl (render env_working compositor_100 ''img'' two_layers)) =
                draws (gl compositor_100) @ map snd tr"
      and f: "\<forall>k < length tr.
                 \<exists>p. dc_program (snd (tr ! k)) = Some p \<and>
                     (uniform_active env_working p ''u_flipY'' \<longrightarrow>
                      dc_uniforms (snd (tr ! k)) ''u_flipY'' =
                        Some (Uniform1i (if fst (tr ! k) = 0 then 1 else 0)))"
      and w: "working env_working \<longrightarrow>
                map fst tr = [0..<length (filter hasEffect two_layers)]"
    by (elim exE conjE)
  have ix: "map fst tr = [0, 1]"
    using w working_env_working two_layers_active(2) by (simp add: upt_rec)
  then have len: "length tr = 2" by (metis length_map length_Cons list.size(3) numeral_2_eq_2)
  have i0: "fst (tr ! 0) = 0" and i1: "fst (tr ! 1) = 1"
    using nth_map[of 0 tr fst] nth_map[of 1 tr fst] len by (simp_all add: ix)
  have act: "uniform_active env_working p ''u_flipY''" for p
    by (simp add: env_working_def)
  have f0: "dc_uniforms (snd (tr ! 0)) ''u_flipY'' = Some (Uniform1i 1)"
    using f[rule_format, of 0] len i0 act by auto
  have f1: "dc_uniforms (snd (tr ! 1)) ''u_flipY'' = Some (Uniform1i 0)"
    using f[rule_format, of 1] len i1 act by auto
  show ?thesis
    using two_layers_active(1) vao working_env_working d ix f0 f1
    by (intro conjI exI[of _ tr]) assumption+
qed




section \<open>Layers at their defaults\<close>

text \<open>What \<^verbatim>\<open>render\<close> does to the texture cache and to a buffer pair of the right size.\<close>

lemma render_textures:
  "textures (render E c src ls) src = fst (getTexture E src (textures c, gl c))"
proof -
  obtain r texs g1 where gt: "getTexture E src (textures c, gl c) = (r, texs, g1)"
    by (metis prod_cases3)
  note f = getTexture_cases[OF gt]
  show ?thesis
  proof (cases r)
    case None
    then show ?thesis using f by (simp add: render_def gt)
  next
    case (Some t)
    show ?thesis
      using f Some loop_frame
      by (simp add: render_def gt Let_def renderPassthrough_frame case_prod_beta)
  qed
qed

lemma render_framebuffers:
  assumes "pp_width (pingPong c) = width c" "pp_height (pingPong c) = height c"
  shows "framebuffers (pingPong (render E c src ls)) = framebuffers (pingPong c)"
proof -
  obtain r texs g1 where gt: "getTexture E src (textures c, gl c) = (r, texs, g1)"
    by (metis prod_cases3)
  have same: "pp_resize E (width c) (height c) (pingPong c, g) = (True, pingPong c, g)" for g
    using assms by (simp add: pp_resize_def)
  show ?thesis
  proof (cases r)
    case None
    then show ?thesis by (simp add: render_def gt)
  next
    case (Some t)
    show ?thesis
      using Some loop_frame
      by (simp add: render_def gt Let_def renderPassthrough_frame same reset_def)
  qed
qed

lemma default_layers_active:
  "filter hasEffect default_layers = default_layers" "length default_layers = 2"
  by (simp_all add: default_layers_def hasEffect_def createShaderLayer_def)

text \<open>
  Claim C4 as written fails for a list whose layers all have every property at its
  declared default: a new blend-mode layer followed by a new pixelate layer is composited
  in two passes, the first into the write framebuffer of the buffer pair, and the second
  from the texture of that framebuffer to the canvas.
\<close>

theorem defaults_are_composited:
  "enabled (default_layers ! 0) \<and> enabled (default_layers ! 1) \<and>
   properties (default_layers ! 0) = SHADER_DEFAULTS (layer_type (default_layers ! 0)) \<and>
   properties (default_layers ! 1) = SHADER_DEFAULTS (layer_type (default_layers ! 1)) \<and>
   length default_layers = 2 \<and>
   length (draws (gl (render env_working compositor_100 ''img'' default_layers))) = 2 \<and>
   getWriteFramebuffer (pingPong compositor_100) = Some 5 \<and>
   getWriteTexture (pingPong compositor_100) = Some 6 \<and>
   dc_target (draws (gl (render env_working compositor_100 ''img'' default_layers)) ! 0) =
     Some 5 \<and>
   dc_texture (draws (gl (render env_working compositor_100 ''img'' default_layers)) ! 1) =
     Some 6 \<and>
   dc_target (draws (gl (render env_working compositor_100 ''img'' default_layers)) ! 1) =
     None"
proof -
  let ?r = "render env_working compositor_100 ''img'' default_layers"
  have a: "enabled (default_layers ! 0)" "enabled (default_layers ! 1)"
    "properties (default_layers ! 0) = SHADER_DEFAULTS (layer_type (default_layers ! 0))"
    "properties (default_layers ! 1) = SHADER_DEFAULTS (layer_type (default_layers ! 1))"
    by (simp_all add: default_layers_def createShaderLayer_def layer_type_def)
  have w: "getWriteFramebuffer (pingPong compositor_100) = Some 5"
    "getWriteTexture (pingPong compositor_100) = Some 6"
    by (simp_all add: getWriteFramebuffer_def getWriteTexture_def compositor_100_def slot_def)
  have vao: "quad_vao compositor_100 \<noteq> None" and d0: "draws (gl compositor_100) = []"
    by (simp_all add: compositor_100_def gl_init_def)
  have act: "filter hasEffect default_layers \<noteq> []"
    using default_layers_active by (simp add: default_layers_def)
  have n: "length (filter hasEffect default_layers) = 2"
    using default_layers_active by simp
  have fbs: "framebuffers (pingPong ?r) =
     (Some \<lparr>fb_framebuffer = 3, fb_texture = 4, fb_width = 100, fb_height = 100\<rparr>,
      Some \<lparr>fb_framebuffer = 5, fb_texture = 6, fb_width = 100, fb_height = 100\<rparr>)"
    by (subst render_framebuffers) (simp_all add: compositor_100_def)
  from render_trace[OF act vao, of env_working "''img''"] obtain tr
    where tr: "draws (gl ?r) = draws (gl compositor_100) @ map snd tr"
      "\<forall>k < length tr.
         pass_draw_ok env_working (length (filter hasEffect default_layers))
           (framebuffers (pingPong ?r)) (textures ?r ''img'') k (tr ! k)"
      "working env_working \<longrightarrow> map fst tr = [0..<length (filter hasEffect default_layers)]"
    by (elim exE conjE)
  have ix: "map fst tr = [0, 1]"
    using tr(3) working_env_working n by (simp add: upt_rec)
  then have len: "length tr = 2" by (metis length_map length_Cons list.size(3) numeral_2_eq_2)
  have i0: "fst (tr ! 0) = 0" and i1: "fst (tr ! 1) = 1"
    using nth_map[of 0 tr fst] nth_map[of 1 tr fst] len by (simp_all add: ix)
  have dr: "draws (gl ?r) = map snd tr" using tr(1) d0 by simp
  have l2: "length (draws (gl ?r)) = 2" using dr len by simp
  have e0: "draws (gl ?r) ! 0 = snd (tr ! 0)" and e1: "draws (gl ?r) ! 1 = snd (tr ! 1)"
    using len by (simp_all add: dr)
  have p0: "pass_draw_ok env_working 2 (framebuffers (pingPong ?r)) (textures ?r ''img'') 0 (tr ! 0)"
    and p1: "pass_draw_ok env_working 2 (framebuffers (pingPong ?r)) (textures ?r ''img'') 1 (tr ! 1)"
    using tr(2)[rule_format, of 0] tr(2)[rule_format, of 1] len n by simp_all
  have t0: "dc_target (snd (tr ! 0)) = Some 5"
    using p0 i0 by (simp add: pass_draw_ok_def case_prod_beta fbs slot_def)
  have t1: "dc_target (snd (tr ! 1)) = None" "dc_texture (snd (tr ! 1)) = Some 6"
    using p1 i1 by (simp_all add: pass_draw_ok_def case_prod_beta fbs slot_def)
  from a default_layers_active(2) l2 w t0 t1 e0 e1 show ?thesis by simp
qed

section \<open>A skipped pass\<close>

lemma map_singleton_nth: "map f xs = [y] \<Longrightarrow> length xs = 1 \<and> f (xs ! 0) = y"
  by (cases xs) auto

text \<open>A brightness layer followed by a vignette layer, in a context that rejects the
  fragment shader of the first pass, and the vignette layer alone in that context.\<close>

lemma skipped_first_pass_run:
  "map (\<lambda>d. (dc_program d, dc_target d, dc_texture d, dc_uniforms d ''u_flipY''))
     (draws (gl (render (env_rejecting brightnessFragmentShader) compositor_100 ''img''
                   two_layers))) =
   [(Some 12, None, Some 7, Some (Uniform1i 0))]"
  by (simp add: run_loop)

lemma second_layer_alone_run:
  "map (\<lambda>d. (dc_program d, dc_target d, dc_texture d, dc_uniforms d ''u_flipY''))
     (draws (gl (render (env_rejecting brightnessFragmentShader) compositor_100 ''img''
                   [two_layers ! 1]))) =
   [(Some 10, None, Some 7, Some (Uniform1i 1))]"
  by (simp add: run_loop)

text \<open>The same layers in a context that rejects the fragment shader of the second pass,
  and the brightness layer alone in that context.\<close>

lemma skipped_last_pass_run:
  "map (\<lambda>d. (dc_program d, dc_target d, dc_texture d))
     (draws (gl (render (env_rejecting passthroughFragmentShader) compositor_100 ''img''
                   two_layers))) =
   [(Some 10, Some 5, Some 7)]"
  by (simp add: run_loop)

lemma first_layer_alone_run:
  "map (\<lambda>d. (dc_program d, dc_target d, dc_texture d))
     (draws (gl (render (env_rejecting passthroughFragmentShader) compositor_100 ''img''
                   [two_layers ! 0]))) =
   [(Some 10, None, Some 7)]"
  by (simp add: run_loop)

text \<open>
  Claim C7 as written fails in two ways. By the design of the program cache, which stores
  successes only: in a context that rejects the brightness fragment shader, the first
  \<^verbatim>\<open>getProgram\<close> fails, and the next \<^verbatim>\<open>getProgram\<close> for the same type hands both sources to
  the compiler again. And by a slip of the pass loop, whose \<^verbatim>\<open>u_flipY\<close> and whose choice of
  the canvas follow the index of a pass and not the passes that ran, against its own
  comment (\<^verbatim>\<open>only flip on first pass (image texture)\<close>): the other layers are affected. With
  the brightness pass skipped, the vignette layer draws the image texture with \<^verbatim>\<open>u_flipY\<close>
  0, where alone it draws it with 1; with the vignette pass skipped, the brightness layer
  draws into a framebuffer of the pair and nothing reaches the canvas, where alone it
  draws to the canvas.
\<close>

theorem failed_compile_repeated_and_layers_affected:
  "fst (getProgram (env_rejecting brightnessFragmentShader) ''brightness'' quadVertexShader
          brightnessFragmentShader (Map.empty, gl_init)) = None \<and>
   compiled (snd (snd (getProgram (env_rejecting brightnessFragmentShader) ''brightness''
          quadVertexShader brightnessFragmentShader (Map.empty, gl_init)))) =
     [quadVertexShader, brightnessFragmentShader] \<and>
   compiled (snd (snd (getProgram (env_rejecting brightnessFragmentShader) ''brightness''
          quadVertexShader brightnessFragmentShader
          (snd (getProgram (env_rejecting brightnessFragmentShader) ''brightness''
                  quadVertexShader brightnessFragmentShader (Map.empty, gl_init)))))) =
     [quadVertexShader, brightnessFragmentShader, quadVertexShader, brightnessFragmentShader] \<and>
   length (draws (gl (render (env_rejecting brightnessFragmentShader) compositor_100 ''img''
                        two_layers))) = 1 \<and>
   dc_texture (draws (gl (render (env_rejecting brightnessFragmentShader) compositor_100
                            ''img'' two_layers)) ! 0) = Some 7 \<and>
   dc_uniforms (draws (gl (render (env_rejecting brightnessFragmentShader) compositor_100
                             ''img'' two_layers)) ! 0) ''u_flipY'' = Some (Uniform1i 0) \<and>
   dc_texture (draws (gl (render (env_rejecting brightnessFragmentShader) compositor_100
                            ''img'' [two_layers ! 1])) ! 0) = Some 7 \<and>
   dc_uniforms (draws (gl (render (env_rejecting brightnessFragmentShader) compositor_100
                             ''img'' [two_layers ! 1])) ! 0) ''u_flipY'' = Some (Uniform1i 1) \<and>
   length (draws (gl (render (env_rejecting passthroughFragmentShader) compositor_100 ''img''
                        two_layers))) = 1 \<and>
   dc_target (draws (gl (render (env_rejecting passthroughFragmentShader) compositor_100
                           ''img'' two_layers)) ! 0) = Some 5 \<and>
   dc_target (draws (gl (render (env_rejecting passthroughFragmentShader) compositor_100
                           ''img'' [two_layers ! 0])) ! 0) = None"
proof -
  have retry: "fst (getProgram (env_rejecting brightnessFragmentShader) ''brightness''
          quadVertexShader brightnessFragmentShader (Map.empty, gl_init)) = None \<and>
   compiled (snd (snd (getProgram (env_rejecting brightnessFragmentShader) ''brightness''
          quadVertexShader brightnessFragmentShader (Map.empty, gl_init)))) =
     [quadVertexShader, brightnessFragmentShader] \<and>
   compiled (snd (snd (getProgram (env_rejecting brightnessFragmentShader) ''brightness''
          quadVertexShader brightnessFragmentShader
          (snd (getProgram (env_rejecting brightnessFragmentShader) ''brightness''
                  quadVertexShader brightnessFragmentShader (Map.empty, gl_init)))))) =
     [quadVertexShader, brightnessFragmentShader, quadVertexShader, brightnessFragmentShader]"
    unfolding rejected_brightness_run snd_conv fst_conv rejected_brightness_again_run
    by (simp add: gl_rejected_once_def gl_rejected_twice_def)
  note a = map_singleton_nth[OF skipped_first_pass_run]
  note b = map_singleton_nth[OF second_layer_alone_run]
  note c = map_singleton_nth[OF skipped_last_pass_run]
  note d = map_singleton_nth[OF first_layer_alone_run]
  from retry a b c d show ?thesis by simp
qed

end
